theory Spec2Isabelle
  imports Main "HOL-Library.Finite_Map"
begin

section \<open>Values, operation wrappers and value paths\<close>

text \<open>
  The tags of the update operations. In the source they are the symbols \<^verbatim>\<open>$ADD\<close>,
  \<^verbatim>\<open>$DELETE\<close>, ... imported from \<^verbatim>\<open>symbols/index.js\<close>; a wrapper is an object
  keyed by one of them.
\<close>

datatype op_tag = ADD | DELETE | REMOVE | SET | GET

text \<open>
  The values the parser receives. A JavaScript \<^verbatim>\<open>unknown\<close> is a \<open>val option\<close>, with
  \<open>None\<close> for \<^verbatim>\<open>undefined\<close>; the attributes of a map are a finite map, so that an
  absent attribute reads as \<^verbatim>\<open>undefined\<close>. A wrapper \<^verbatim>\<open>{ [$ADD]: v }\<close> is
  \<open>VOp ADD v\<close>, its payload possibly \<^verbatim>\<open>undefined\<close>.
\<close>

datatype val =
    VNull
  | VBool bool
  | VNum int
  | VStr string
  | VSet "val list"
  | VList "val list"
  | VMap "(string, val) fmap"
  | VOp op_tag "val option"

type_synonym unknown = "val option"

datatype segment = Name string | Index nat

type_synonym ValuePath = "segment list"

datatype reason =
    RequiredAttributeMissing
  | TypeMismatch
  | ValidationFailed string
  | RenameConflict

record SchemaError =
  path :: ValuePath
  reason :: reason

subsection \<open>Sentinel predicates\<close>

text \<open>
  Modelled from the spec: the predicates \<^verbatim>\<open>isAddition\<close>, \<^verbatim>\<open>isDeletion\<close>,
  \<^verbatim>\<open>isRemoval\<close> of \<^verbatim>\<open>symbols/index.js\<close> are not among the sources. The spec
  (4.2) makes each of them true iff its argument is an object carrying the matching tag
  with a defined payload. \<open>payload tag x\<close> is the property read \<^verbatim>\<open>x[$TAG]\<close>.
\<close>

definition carries :: "op_tag \<Rightarrow> unknown \<Rightarrow> bool" where
  "carries tag x = (case x of Some (VOp t p) \<Rightarrow> t = tag | _ \<Rightarrow> False)"

definition payload :: "op_tag \<Rightarrow> unknown \<Rightarrow> unknown" where
  "payload tag x = (case x of Some (VOp t p) \<Rightarrow> if t = tag then p else None | _ \<Rightarrow> None)"

definition isOperation :: "op_tag \<Rightarrow> unknown \<Rightarrow> bool" where
  "isOperation tag x = (carries tag x \<and> payload tag x \<noteq> None)"

definition isAddition :: "unknown \<Rightarrow> bool" where
  "isAddition x = isOperation ADD x"

definition isDeletion :: "unknown \<Rightarrow> bool" where
  "isDeletion x = isOperation DELETE x"

definition isRemoval :: "unknown \<Rightarrow> bool" where
  "isRemoval x = isOperation REMOVE x"

section \<open>Two-resume producers\<close>

text \<open>
  A generator is the sequence of its remaining steps: a yield followed by the rest, a
  return, or a throw. \<open>Finished\<close> is the exhausted generator. \<open>resume\<close> is the
  \<^verbatim>\<open>.next()\<close> of the source: it gives the iterator result and the generator's next
  state, or the error thrown.
\<close>

datatype 'a gen = Yield 'a "'a gen" | Return 'a | Throw SchemaError | Finished

datatype IteratorResult = IteratorResult (value_of: unknown) (is_done: bool)

type_synonym handle = "unknown gen"

fun resume :: "handle \<Rightarrow> SchemaError + (IteratorResult \<times> handle)" where
  "resume (Yield v g) = Inr (IteratorResult v False, g)"
| "resume (Return v) = Inr (IteratorResult v True, Finished)"
| "resume (Throw e) = Inl e"
| "resume Finished = Inr (IteratorResult None True, Finished)"

section \<open>The Set extension of the update mode\<close>

record ExtensionParserOptions =
  transform :: "bool option"
  valuePath :: "ValuePath option"

record ParserOptions = ExtensionParserOptions +
  fill :: "bool option"

datatype ParseResult =
    IsExtension (extensionParser: handle)
  | NotExtension (unextendedInput: unknown)

text \<open>
  \<^verbatim>\<open>parseSetExtension\<close> of the source. The class \<^verbatim>\<open>Parser\<close> it imports is not among
  the sources: \<open>start schema input options\<close> stands for
  \<^verbatim>\<open>new Parser(schema).start(input, options)\<close> and is a parameter. The two branches of
  the source differ in the tag only; \<open>operandParser\<close> is their common generator body.
\<close>

definition operandParser ::
  "('s \<Rightarrow> unknown \<Rightarrow> ParserOptions \<Rightarrow> handle) \<Rightarrow> op_tag \<Rightarrow> string \<Rightarrow> 's \<Rightarrow> unknown \<Rightarrow>
   bool \<Rightarrow> ValuePath option \<Rightarrow> handle" where
  "operandParser start tag seg schema input tr vp =
     (let parser = start schema (payload tag input)
            \<lparr>transform = Some tr,
             valuePath = Some ((case vp of None \<Rightarrow> [] | Some p \<Rightarrow> p) @ [Name seg]),
             fill = Some False\<rparr>
      in case resume parser of
           Inl e \<Rightarrow> Throw e
         | Inr (r1, parser1) \<Rightarrow>
             let parsedValue = Some (VOp tag (value_of r1))
             in if tr
                then Yield parsedValue
                       (case resume parser1 of
                          Inl e \<Rightarrow> Throw e
                        | Inr (r2, parser2) \<Rightarrow> Return (Some (VOp tag (value_of r2))))
                else Return parsedValue)"

definition parseSetExtension ::
  "('s \<Rightarrow> unknown \<Rightarrow> ParserOptions \<Rightarrow> handle) \<Rightarrow> 's \<Rightarrow> unknown \<Rightarrow>
   ExtensionParserOptions \<Rightarrow> ParseResult" where
  "parseSetExtension start schema input options =
     (let tr = (case transform options of None \<Rightarrow> True | Some t \<Rightarrow> t);
          vp = valuePath options
      in if isAddition input \<and> payload ADD input \<noteq> None
         then IsExtension (operandParser start ADD ''$ADD'' schema input tr vp)
         else if isDeletion input \<and> payload DELETE input \<noteq> None
         then IsExtension (operandParser start DELETE ''$DELETE'' schema input tr vp)
         else NotExtension input)"

section \<open>Schema properties and the list schema builder\<close>

datatype SchemaRequiredProp = AtLeastOnce | Always | Never

datatype 'a ValueOrGetter = Value 'a | Getter "unit \<Rightarrow> 'a"

datatype ValidatorResult = Accepts bool | Message string

type_synonym Validator = "val \<Rightarrow> ValidatorResult"

text \<open>
  The property object of a schema (\<^verbatim>\<open>SchemaProps\<close>). Every property is optional:
  \<open>None\<close> is a property the object does not have. \<^verbatim>\<open>savedAs\<close> may be present and
  \<^verbatim>\<open>undefined\<close>, and a default of type \<^verbatim>\<open>unknown\<close> may be \<^verbatim>\<open>undefined\<close>.
\<close>

record SchemaProps =
  required :: "SchemaRequiredProp option"
  hidden :: "bool option"
  key :: "bool option"
  savedAs :: "string option option"
  keyDefault :: "unknown ValueOrGetter option"
  putDefault :: "unknown ValueOrGetter option"
  updateDefault :: "unknown ValueOrGetter option"
  keyLink :: "(unknown \<Rightarrow> unknown) option"
  putLink :: "(unknown \<Rightarrow> unknown) option"
  updateLink :: "(unknown \<Rightarrow> unknown) option"
  keyValidator :: "Validator option"
  putValidator :: "Validator option"
  updateValidator :: "Validator option"
  transformer :: "((val \<Rightarrow> val) \<times> (val \<Rightarrow> val)) option"

definition no_props :: SchemaProps where
  "no_props =
     \<lparr>required = None, hidden = None, key = None, savedAs = None,
      keyDefault = None, putDefault = None, updateDefault = None,
      keyLink = None, putLink = None, updateLink = None,
      keyValidator = None, putValidator = None, updateValidator = None,
      transformer = None\<rparr>"

definition overwriteProp :: "'a option \<Rightarrow> 'a option \<Rightarrow> 'a option" where
  "overwriteProp old new = (case new of None \<Rightarrow> old | Some x \<Rightarrow> Some x)"

text \<open>
  Modelled from the spec: \<^verbatim>\<open>overwrite\<close> of \<^verbatim>\<open>utils/overwrite.js\<close> is not among the
  sources. It is the object spread \<^verbatim>\<open>{ ...obj, ...overwrites }\<close>: a new object in which
  the properties that \<open>overwrites\<close> has replace those of \<open>obj\<close>.
\<close>

definition overwrite :: "SchemaProps \<Rightarrow> SchemaProps \<Rightarrow> SchemaProps" where
  "overwrite obj overwrites =
     \<lparr>required = overwriteProp (required obj) (required overwrites),
      hidden = overwriteProp (hidden obj) (hidden overwrites),
      key = overwriteProp (key obj) (key overwrites),
      savedAs = overwriteProp (savedAs obj) (savedAs overwrites),
      keyDefault = overwriteProp (keyDefault obj) (keyDefault overwrites),
      putDefault = overwriteProp (putDefault obj) (putDefault overwrites),
      updateDefault = overwriteProp (updateDefault obj) (updateDefault overwrites),
      keyLink = overwriteProp (keyLink obj) (keyLink overwrites),
      putLink = overwriteProp (putLink obj) (putLink overwrites),
      updateLink = overwriteProp (updateLink obj) (updateLink overwrites),
      keyValidator = overwriteProp (keyValidator obj) (keyValidator overwrites),
      putValidator = overwriteProp (putValidator obj) (putValidator overwrites),
      updateValidator = overwriteProp (updateValidator obj) (updateValidator overwrites),
      transformer = overwriteProp (transformer obj) (transformer overwrites)\<rparr>"

text \<open>
  Modelled from the spec: \<^verbatim>\<open>ifThenElse\<close> of \<^verbatim>\<open>utils/ifThenElse.js\<close> is not among the
  sources; it chooses by the truthiness of its condition, here the optional boolean
  \<^verbatim>\<open>props.key\<close>.
\<close>

definition ifThenElse :: "bool option \<Rightarrow> 'a \<Rightarrow> 'a \<Rightarrow> 'a" where
  "ifThenElse condition thenValue elseValue =
     (if condition = Some True then thenValue else elseValue)"

text \<open>
  The class \<^verbatim>\<open>ListSchema_\<close> of \<^verbatim>\<open>schema/list/schema_.ts\<close>: an object with the fields
  \<^verbatim>\<open>elements\<close> and \<^verbatim>\<open>props\<close>. Each method takes the receiver first; a parameter
  with a default value is optional, \<open>None\<close> when the caller leaves it out.
\<close>

record 'e ListSchema =
  elements :: 'e
  props :: SchemaProps

definition ListSchema_required :: "'e ListSchema \<Rightarrow> SchemaRequiredProp option \<Rightarrow> 'e ListSchema" where
  "ListSchema_required self nextRequired =
     (let nextRequired = (case nextRequired of None \<Rightarrow> AtLeastOnce | Some r \<Rightarrow> r)
      in \<lparr>elements = elements self,
          props = overwrite (props self) (no_props\<lparr>required := Some nextRequired\<rparr>)\<rparr>)"

definition ListSchema_optional :: "'e ListSchema \<Rightarrow> 'e ListSchema" where
  "ListSchema_optional self = ListSchema_required self (Some Never)"

definition ListSchema_hidden :: "'e ListSchema \<Rightarrow> bool option \<Rightarrow> 'e ListSchema" where
  "ListSchema_hidden self nextHidden =
     (let nextHidden = (case nextHidden of None \<Rightarrow> True | Some h \<Rightarrow> h)
      in \<lparr>elements = elements self,
          props = overwrite (props self) (no_props\<lparr>hidden := Some nextHidden\<rparr>)\<rparr>)"

definition ListSchema_key :: "'e ListSchema \<Rightarrow> bool option \<Rightarrow> 'e ListSchema" where
  "ListSchema_key self nextKey =
     (let nextKey = (case nextKey of None \<Rightarrow> True | Some k \<Rightarrow> k)
      in \<lparr>elements = elements self,
          props = overwrite (props self)
                    (no_props\<lparr>key := Some nextKey, required := Some Always\<rparr>)\<rparr>)"

definition ListSchema_savedAs :: "'e ListSchema \<Rightarrow> string option \<Rightarrow> 'e ListSchema" where
  "ListSchema_savedAs self nextSavedAs =
     \<lparr>elements = elements self,
      props = overwrite (props self) (no_props\<lparr>savedAs := Some nextSavedAs\<rparr>)\<rparr>"

definition ListSchema_keyDefault :: "'e ListSchema \<Rightarrow> unknown ValueOrGetter \<Rightarrow> 'e ListSchema" where
  "ListSchema_keyDefault self nextKeyDefault =
     \<lparr>elements = elements self,
      props = overwrite (props self) (no_props\<lparr>keyDefault := Some nextKeyDefault\<rparr>)\<rparr>"

definition ListSchema_putDefault :: "'e ListSchema \<Rightarrow> unknown ValueOrGetter \<Rightarrow> 'e ListSchema" where
  "ListSchema_putDefault self nextPutDefault =
     \<lparr>elements = elements self,
      props = overwrite (props self) (no_props\<lparr>putDefault := Some nextPutDefault\<rparr>)\<rparr>"

definition ListSchema_updateDefault :: "'e ListSchema \<Rightarrow> unknown ValueOrGetter \<Rightarrow> 'e ListSchema" where
  "ListSchema_updateDefault self nextUpdateDefault =
     \<lparr>elements = elements self,
      props = overwrite (props self) (no_props\<lparr>updateDefault := Some nextUpdateDefault\<rparr>)\<rparr>"

definition ListSchema_default :: "'e ListSchema \<Rightarrow> unknown ValueOrGetter \<Rightarrow> 'e ListSchema" where
  "ListSchema_default self nextDefault =
     ifThenElse (key (props self))
       \<lparr>elements = elements self,
        props = overwrite (props self) (no_props\<lparr>keyDefault := Some nextDefault\<rparr>)\<rparr>
       \<lparr>elements = elements self,
        props = overwrite (props self) (no_props\<lparr>putDefault := Some nextDefault\<rparr>)\<rparr>"

definition ListSchema_keyLink :: "'e ListSchema \<Rightarrow> (unknown \<Rightarrow> unknown) \<Rightarrow> 'e ListSchema" where
  "ListSchema_keyLink self nextKeyLink =
     \<lparr>elements = elements self,
      props = overwrite (props self) (no_props\<lparr>keyLink := Some nextKeyLink\<rparr>)\<rparr>"

definition ListSchema_putLink :: "'e ListSchema \<Rightarrow> (unknown \<Rightarrow> unknown) \<Rightarrow> 'e ListSchema" where
  "ListSchema_putLink self nextPutLink =
     \<lparr>elements = elements self,
      props = overwrite (props self) (no_props\<lparr>putLink := Some nextPutLink\<rparr>)\<rparr>"

definition ListSchema_updateLink :: "'e ListSchema \<Rightarrow> (unknown \<Rightarrow> unknown) \<Rightarrow> 'e ListSchema" where
  "ListSchema_updateLink self nextUpdateLink =
     \<lparr>elements = elements self,
      props = overwrite (props self) (no_props\<lparr>updateLink := Some nextUpdateLink\<rparr>)\<rparr>"

definition ListSchema_link :: "'e ListSchema \<Rightarrow> (unknown \<Rightarrow> unknown) \<Rightarrow> 'e ListSchema" where
  "ListSchema_link self nextLink =
     ifThenElse (key (props self))
       \<lparr>elements = elements self,
        props = overwrite (props self) (no_props\<lparr>keyLink := Some nextLink\<rparr>)\<rparr>
       \<lparr>elements = elements self,
        props = overwrite (props self) (no_props\<lparr>putLink := Some nextLink\<rparr>)\<rparr>"

definition ListSchema_keyValidate :: "'e ListSchema \<Rightarrow> Validator \<Rightarrow> 'e ListSchema" where
  "ListSchema_keyValidate self nextKeyValidator =
     \<lparr>elements = elements self,
      props = overwrite (props self) (no_props\<lparr>keyValidator := Some nextKeyValidator\<rparr>)\<rparr>"

definition ListSchema_putValidate :: "'e ListSchema \<Rightarrow> Validator \<Rightarrow> 'e ListSchema" where
  "ListSchema_putValidate self nextPutValidator =
     \<lparr>elements = elements self,
      props = overwrite (props self) (no_props\<lparr>putValidator := Some nextPutValidator\<rparr>)\<rparr>"

definition ListSchema_updateValidate :: "'e ListSchema \<Rightarrow> Validator \<Rightarrow> 'e ListSchema" where
  "ListSchema_updateValidate self nextUpdateValidator =
     \<lparr>elements = elements self,
      props = overwrite (props self) (no_props\<lparr>updateValidator := Some nextUpdateValidator\<rparr>)\<rparr>"

definition ListSchema_validate :: "'e ListSchema \<Rightarrow> Validator \<Rightarrow> 'e ListSchema" where
  "ListSchema_validate self nextValidator =
     ifThenElse (key (props self))
       \<lparr>elements = elements self,
        props = overwrite (props self) (no_props\<lparr>keyValidator := Some nextValidator\<rparr>)\<rparr>
       \<lparr>elements = elements self,
        props = overwrite (props self) (no_props\<lparr>putValidator := Some nextValidator\<rparr>)\<rparr>"

definition ListSchema_clone :: "'e ListSchema \<Rightarrow> SchemaProps \<Rightarrow> 'e ListSchema" where
  "ListSchema_clone self nextProps =
     \<lparr>elements = elements self, props = overwrite (props self) nextProps\<rparr>"

section \<open>The parser engine\<close>

text \<open>
  Modelled from the spec: the class \<^verbatim>\<open>Parser\<close> (\<^verbatim>\<open>schema/actions/parse\<close>) is not among
  the sources. The definitions of this section follow sections 3, 4.2 and 4.3 of the
  spec. The mode and the extension are the parser's configuration; the options are those
  of the spec, \<^verbatim>\<open>{fill, transform, valuePath}\<close>.
\<close>

subsection \<open>Schemas and the parser's configuration\<close>

text \<open>
  Modelled from the spec: the schema classes other than the list builder are not among
  the sources. Section 3 makes a schema a closed variant over scalar, set, list, map,
  union and item, each with the shared properties; a set and a list have one element
  schema, a map and an item their attributes by name, a union its members in order.
\<close>

datatype kind = KNull | KBoolean | KNumber | KString

datatype Schema =
    Scalar kind SchemaProps
  | SetOf Schema SchemaProps
  | ListOf Schema SchemaProps
  | MapOf "(string \<times> Schema) list" SchemaProps
  | AnyOf "Schema list" SchemaProps
  | Item "(string \<times> Schema) list" SchemaProps

datatype WriteMode = KeyMode | CreateMode | UpdateMode

type_synonym Extension = "Schema \<Rightarrow> unknown \<Rightarrow> ExtensionParserOptions \<Rightarrow> ParseResult"

record ParserConfig =
  mode :: WriteMode
  extension :: "Extension option"

fun props_of :: "Schema \<Rightarrow> SchemaProps" where
  "props_of (Scalar k p) = p"
| "props_of (SetOf e p) = p"
| "props_of (ListOf e p) = p"
| "props_of (MapOf cs p) = p"
| "props_of (AnyOf ms p) = p"
| "props_of (Item cs p) = p"

subsection \<open>The steps of one node\<close>

text \<open>
  Modelled from the spec: step 4 of section 4.3. \<^verbatim>\<open>AtLeastOnce\<close> requires the attribute
  in create mode only, \<^verbatim>\<open>Always\<close> in every mode, \<^verbatim>\<open>Never\<close> in none; a schema without
  the property is \<^verbatim>\<open>atLeastOnce\<close>, the default that the doc comment of
  \<^verbatim>\<open>ListSchema_.required\<close> gives.
\<close>

definition requiredMode :: "SchemaProps \<Rightarrow> SchemaRequiredProp" where
  "requiredMode p = (case required p of None \<Rightarrow> AtLeastOnce | Some r \<Rightarrow> r)"

definition isRequired :: "WriteMode \<Rightarrow> SchemaProps \<Rightarrow> bool" where
  "isRequired m p =
     (case requiredMode p of
        AtLeastOnce \<Rightarrow> m = CreateMode
      | Always \<Rightarrow> True
      | Never \<Rightarrow> False)"

text \<open>
  Modelled from the spec: step 3 of section 4.3. With \<^verbatim>\<open>fill\<close>, an undefined input is
  resolved by the link of the mode, evaluated on the values filled so far, else by the
  default of the mode (a value or a getter), else it stays undefined.
\<close>

definition modeLink :: "WriteMode \<Rightarrow> SchemaProps \<Rightarrow> (unknown \<Rightarrow> unknown) option" where
  "modeLink m p = (case m of KeyMode \<Rightarrow> keyLink p | CreateMode \<Rightarrow> putLink p | UpdateMode \<Rightarrow> updateLink p)"

definition modeDefault :: "WriteMode \<Rightarrow> SchemaProps \<Rightarrow> unknown ValueOrGetter option" where
  "modeDefault m p =
     (case m of KeyMode \<Rightarrow> keyDefault p | CreateMode \<Rightarrow> putDefault p | UpdateMode \<Rightarrow> updateDefault p)"

definition modeValidator :: "WriteMode \<Rightarrow> SchemaProps \<Rightarrow> Validator option" where
  "modeValidator m p =
     (case m of KeyMode \<Rightarrow> keyValidator p | CreateMode \<Rightarrow> putValidator p
      | UpdateMode \<Rightarrow> updateValidator p)"

definition resolveDefault :: "unknown ValueOrGetter option \<Rightarrow> unknown" where
  "resolveDefault d = (case d of None \<Rightarrow> None | Some (Value v) \<Rightarrow> v | Some (Getter g) \<Rightarrow> g ())"

definition fillValue :: "WriteMode \<Rightarrow> SchemaProps \<Rightarrow> bool \<Rightarrow> unknown \<Rightarrow> unknown \<Rightarrow> unknown" where
  "fillValue m p fl ctx input =
     (if fl \<and> input = None
      then (case (case modeLink m p of None \<Rightarrow> None | Some l \<Rightarrow> l ctx) of
              Some v \<Rightarrow> Some v
            | None \<Rightarrow> resolveDefault (modeDefault m p))
      else input)"

text \<open>
  Modelled from the spec: the validator of step 4. A result \<^verbatim>\<open>false\<close> or a string raises
  \<^verbatim>\<open>ValidationFailed\<close> at the current path, the string being the message.
\<close>

definition checkValidator :: "WriteMode \<Rightarrow> SchemaProps \<Rightarrow> val \<Rightarrow> ValuePath \<Rightarrow> SchemaError option" where
  "checkValidator m p v pth =
     (case modeValidator m p of
        None \<Rightarrow> None
      | Some f \<Rightarrow>
          (case f v of
             Accepts True \<Rightarrow> None
           | Accepts False \<Rightarrow> Some \<lparr>path = pth, reason = ValidationFailed ''invalid value''\<rparr>
           | Message s \<Rightarrow> Some \<lparr>path = pth, reason = ValidationFailed s\<rparr>))"

fun hasKind :: "kind \<Rightarrow> val \<Rightarrow> bool" where
  "hasKind KNull v = (case v of VNull \<Rightarrow> True | _ \<Rightarrow> False)"
| "hasKind KBoolean v = (case v of VBool b \<Rightarrow> True | _ \<Rightarrow> False)"
| "hasKind KNumber v = (case v of VNum n \<Rightarrow> True | _ \<Rightarrow> False)"
| "hasKind KString v = (case v of VStr s \<Rightarrow> True | _ \<Rightarrow> False)"

text \<open>
  Modelled from the spec: step 5 of section 4.3, the encoder of a scalar and the stored
  name of an attribute.
\<close>

definition encode :: "SchemaProps \<Rightarrow> val \<Rightarrow> val" where
  "encode p v = (case transformer p of None \<Rightarrow> v | Some (enc, dec) \<Rightarrow> enc v)"

definition storedName :: "string \<Rightarrow> SchemaProps \<Rightarrow> string" where
  "storedName name p = (case savedAs p of Some (Some s) \<Rightarrow> s | _ \<Rightarrow> name)"

text \<open>
  Modelled from the spec: step 1 of section 4.3, the extension of the active mode, called
  with the schema, the raw input and \<^verbatim>\<open>{transform, valuePath}\<close>.
\<close>

definition consult :: "ParserConfig \<Rightarrow> Schema \<Rightarrow> unknown \<Rightarrow> bool \<Rightarrow> ValuePath \<Rightarrow> ParseResult" where
  "consult cfg schema raw tr pth =
     (case extension cfg of
        None \<Rightarrow> NotExtension raw
      | Some ext \<Rightarrow> ext schema raw \<lparr>transform = Some tr, valuePath = Some pth\<rparr>)"

text \<open>
  The handle of a node gives the filled value, then, with \<^verbatim>\<open>transform\<close>, the
  transformed one. A composite node resumes the handles of its children once for its
  filled value and once more (\<open>collect\<close>) for its transformed value; a rename that
  maps two attributes to one stored name raises \<^verbatim>\<open>RenameConflict\<close>.
\<close>

definition deliver :: "bool \<Rightarrow> unknown \<Rightarrow> handle \<Rightarrow> handle" where
  "deliver tr filled rest = (if tr then Yield filled rest else Return filled)"

definition step :: "handle \<Rightarrow> SchemaError + (unknown \<times> handle)" where
  "step g = (case resume g of Inl e \<Rightarrow> Inl e | Inr (r, g') \<Rightarrow> Inr (value_of r, g'))"

fun collect :: "handle list \<Rightarrow> SchemaError + unknown list" where
  "collect [] = Inr []"
| "collect (g # gs) =
     (case step g of
        Inl e \<Rightarrow> Inl e
      | Inr (v, g') \<Rightarrow> (case collect gs of Inl e \<Rightarrow> Inl e | Inr vs \<Rightarrow> Inr (v # vs)))"

definition defined :: "unknown list \<Rightarrow> val list" where
  "defined vs = List.map_filter (\<lambda>v. v) vs"

definition finishElements :: "(val list \<Rightarrow> val) \<Rightarrow> handle list \<Rightarrow> handle" where
  "finishElements wrap gs =
     (case collect gs of Inl e \<Rightarrow> Throw e | Inr vs \<Rightarrow> Return (Some (wrap (defined vs))))"

fun entries :: "(string \<times> unknown) list \<Rightarrow> (string, val) fmap" where
  "entries [] = fmempty"
| "entries ((n, None) # es) = entries es"
| "entries ((n, Some v) # es) = fmupd n v (entries es)"

definition finishChildren :: "ValuePath \<Rightarrow> (string \<times> handle) list \<Rightarrow> handle" where
  "finishChildren pth gs =
     (case collect (map snd gs) of
        Inl e \<Rightarrow> Throw e
      | Inr vs \<Rightarrow>
          (let stored = filter (\<lambda>(n, v). v \<noteq> None) (zip (map fst gs) vs)
           in if distinct (map fst stored)
              then Return (Some (VMap (entries stored)))
              else Throw \<lparr>path = pth, reason = RenameConflict\<rparr>))"

subsection \<open>The recursive driver\<close>

text \<open>
  Modelled from the spec: the per-node algorithm of section 4.3. \<open>parse_node\<close> is one
  node: the extension first, then fill, the required check, the type check with the
  recursion into the children (\<open>parse_kind\<close>), the validator, and the handle.
  Elements are parsed in order at the path extended by their index, attributes in the
  order of the schema at the path extended by their name, each with the attributes filled
  before it as the state for its link; a union takes the first member that accepts the
  value.
\<close>

function (sequential) parse_node :: "ParserConfig \<Rightarrow> Schema \<Rightarrow> unknown \<Rightarrow> bool \<Rightarrow> bool \<Rightarrow> ValuePath \<Rightarrow> unknown \<Rightarrow> handle"
and parse_kind :: "ParserConfig \<Rightarrow> Schema \<Rightarrow> val \<Rightarrow> bool \<Rightarrow> bool \<Rightarrow> ValuePath \<Rightarrow> unknown \<Rightarrow>
                   SchemaError + (val \<times> handle)"
and parse_elements :: "ParserConfig \<Rightarrow> Schema \<Rightarrow> val list \<Rightarrow> nat \<Rightarrow> bool \<Rightarrow> bool \<Rightarrow> ValuePath \<Rightarrow> unknown \<Rightarrow>
                   SchemaError + (unknown \<times> handle) list"
and parse_children :: "ParserConfig \<Rightarrow> (string \<times> Schema) list \<Rightarrow> (string, val) fmap \<Rightarrow> bool \<Rightarrow> bool \<Rightarrow>
                   ValuePath \<Rightarrow> (string, val) fmap \<Rightarrow> SchemaError + (string \<times> string \<times> unknown \<times> handle) list"
and parse_members :: "ParserConfig \<Rightarrow> Schema list \<Rightarrow> val \<Rightarrow> bool \<Rightarrow> bool \<Rightarrow> ValuePath \<Rightarrow> unknown \<Rightarrow>
                   (val \<times> handle) option"
where
  "parse_node cfg schema raw fl tr pth ctx =
     (case consult cfg schema raw tr pth of
        IsExtension g \<Rightarrow> g
      | NotExtension input \<Rightarrow>
          (case fillValue (mode cfg) (props_of schema) fl ctx input of
             None \<Rightarrow>
               if isRequired (mode cfg) (props_of schema)
               then Throw \<lparr>path = pth, reason = RequiredAttributeMissing\<rparr>
               else deliver tr None (Return None)
           | Some v \<Rightarrow>
               (case parse_kind cfg schema v fl tr pth ctx of
                  Inl e \<Rightarrow> Throw e
                | Inr (filled, rest) \<Rightarrow>
                    (case checkValidator (mode cfg) (props_of schema) filled pth of
                       Some e \<Rightarrow> Throw e
                     | None \<Rightarrow> deliver tr (Some filled) rest))))"
| "parse_kind cfg (Scalar k p) v fl tr pth ctx =
     (if hasKind k v then Inr (v, Return (Some (encode p v)))
      else Inl \<lparr>path = pth, reason = TypeMismatch\<rparr>)"
| "parse_kind cfg (SetOf elem p) v fl tr pth ctx =
     (case v of
        VSet xs \<Rightarrow>
          (case parse_elements cfg elem xs 0 fl tr pth ctx of
             Inl e \<Rightarrow> Inl e
           | Inr rs \<Rightarrow> Inr (VSet (defined (map fst rs)), finishElements VSet (map snd rs)))
      | _ \<Rightarrow> Inl \<lparr>path = pth, reason = TypeMismatch\<rparr>)"
| "parse_kind cfg (ListOf elem p) v fl tr pth ctx =
     (case v of
        VList xs \<Rightarrow>
          (case parse_elements cfg elem xs 0 fl tr pth ctx of
             Inl e \<Rightarrow> Inl e
           | Inr rs \<Rightarrow> Inr (VList (defined (map fst rs)), finishElements VList (map snd rs)))
      | _ \<Rightarrow> Inl \<lparr>path = pth, reason = TypeMismatch\<rparr>)"
| "parse_kind cfg (MapOf children p) v fl tr pth ctx =
     (case v of
        VMap m \<Rightarrow>
          if fmdom m |\<subseteq>| fset_of_list (map fst children)
          then (case parse_children cfg children m fl tr pth fmempty of
                  Inl e \<Rightarrow> Inl e
                | Inr rs \<Rightarrow>
                    Inr (VMap (entries (map (\<lambda>(n, s, f, g). (n, f)) rs)),
                         finishChildren pth (map (\<lambda>(n, s, f, g). (s, g)) rs)))
          else Inl \<lparr>path = pth, reason = TypeMismatch\<rparr>
      | _ \<Rightarrow> Inl \<lparr>path = pth, reason = TypeMismatch\<rparr>)"
| "parse_kind cfg (Item children p) v fl tr pth ctx =
     (case v of
        VMap m \<Rightarrow>
          if fmdom m |\<subseteq>| fset_of_list (map fst children)
          then (case parse_children cfg children m fl tr pth fmempty of
                  Inl e \<Rightarrow> Inl e
                | Inr rs \<Rightarrow>
                    Inr (VMap (entries (map (\<lambda>(n, s, f, g). (n, f)) rs)),
                         finishChildren pth (map (\<lambda>(n, s, f, g). (s, g)) rs)))
          else Inl \<lparr>path = pth, reason = TypeMismatch\<rparr>
      | _ \<Rightarrow> Inl \<lparr>path = pth, reason = TypeMismatch\<rparr>)"
| "parse_kind cfg (AnyOf members p) v fl tr pth ctx =
     (case parse_members cfg members v fl tr pth ctx of
        None \<Rightarrow> Inl \<lparr>path = pth, reason = TypeMismatch\<rparr>
      | Some r \<Rightarrow> Inr r)"
| "parse_elements cfg elem [] i fl tr pth ctx = Inr []"
| "parse_elements cfg elem (x # xs) i fl tr pth ctx =
     (case step (parse_node cfg elem (Some x) fl tr (pth @ [Index i]) ctx) of
        Inl e \<Rightarrow> Inl e
      | Inr r \<Rightarrow>
          (case parse_elements cfg elem xs (Suc i) fl tr pth ctx of
             Inl e \<Rightarrow> Inl e
           | Inr rs \<Rightarrow> Inr (r # rs)))"
| "parse_children cfg [] m fl tr pth acc = Inr []"
| "parse_children cfg ((name, child) # rest) m fl tr pth acc =
     (case step (parse_node cfg child (fmlookup m name) fl tr (pth @ [Name name]) (Some (VMap acc))) of
        Inl e \<Rightarrow> Inl e
      | Inr (f, g) \<Rightarrow>
          (case parse_children cfg rest m fl tr pth (case f of None \<Rightarrow> acc | Some v \<Rightarrow> fmupd name v acc) of
             Inl e \<Rightarrow> Inl e
           | Inr rs \<Rightarrow> Inr ((name, storedName name (props_of child), f, g) # rs)))"
| "parse_members cfg [] v fl tr pth ctx = None"
| "parse_members cfg (member # rest) v fl tr pth ctx =
     (case step (parse_node cfg member (Some v) fl tr pth ctx) of
        Inr (Some f, g) \<Rightarrow> Some (f, g)
      | _ \<Rightarrow> parse_members cfg rest v fl tr pth ctx)"

  by pat_completeness auto


termination
  apply (relation "inv_image (less_than <*lex*> less_than)
    (\<lambda>x. case x of
       Inl (Inl (cfg, schema, raw, fl, tr, pth, ctx)) \<Rightarrow> (3 * size schema + 2, 0)
     | Inl (Inr (cfg, schema, v, fl, tr, pth, ctx)) \<Rightarrow> (3 * size schema + 1, 0)
     | Inr (Inl (cfg, elem, xs, i, fl, tr, pth, ctx)) \<Rightarrow> (3 * size elem + 3, length xs)
     | Inr (Inr (Inl (cfg, children, m, fl, tr, pth, acc))) \<Rightarrow>
         (3 * size_list (size_prod (\<lambda>_. 0) size) children, 0)
     | Inr (Inr (Inr (cfg, members, v, fl, tr, pth, ctx))) \<Rightarrow>
         (3 * size_list size members, 0))")
  apply (rule wf_inv_image, rule wf_lex_prod, rule wf_less_than, rule wf_less_than)
  apply simp_all
  done

declare parse_node.simps [simp del]
declare parse_kind.simps [simp del]

text \<open>
  Modelled from the spec: \<^verbatim>\<open>start(schema, rawInput, options)\<close> of section 6, where
  \<^verbatim>\<open>fill\<close> and \<^verbatim>\<open>transform\<close> default to \<^verbatim>\<open>true\<close> and \<^verbatim>\<open>valuePath\<close> to the empty
  path.
\<close>

definition Parser_start :: "ParserConfig \<Rightarrow> Schema \<Rightarrow> unknown \<Rightarrow> ParserOptions \<Rightarrow> handle" where
  "Parser_start cfg schema rawInput options =
     parse_node cfg schema rawInput
       (case fill options of None \<Rightarrow> True | Some f \<Rightarrow> f)
       (case transform options of None \<Rightarrow> True | Some t \<Rightarrow> t)
       (case valuePath options of None \<Rightarrow> [] | Some p \<Rightarrow> p)
       None"

text \<open>
  Modelled from the spec: the extension of the update mode, which is not among the
  sources. Section 4.2 has it recognize the wrappers on Set-typed attributes, where it is
  \<^verbatim>\<open>parseSetExtension\<close>; any other input falls through.
\<close>

definition updateExtension :: "(Schema \<Rightarrow> unknown \<Rightarrow> ParserOptions \<Rightarrow> handle) \<Rightarrow> Extension" where
  "updateExtension start schema input options =
     (case schema of
        SetOf elem p \<Rightarrow> parseSetExtension start schema input options
      | _ \<Rightarrow> NotExtension input)"

text \<open>
  The parser that \<^verbatim>\<open>parseSetExtension\<close> creates for an operand receives no extension
  (the source passes \<^verbatim>\<open>fill\<close>, \<^verbatim>\<open>transform\<close> and \<^verbatim>\<open>valuePath\<close> only); its mode
  \<open>m\<close> is the default mode of \<^verbatim>\<open>Parser\<close>, which neither the sources nor the spec
  give, so it stays a parameter. \<open>plainConfig m\<close> is a parser of mode \<open>m\<close> without
  extension, \<open>updateConfig m\<close> the update-mode parser with the Set extension.
\<close>

definition plainConfig :: "WriteMode \<Rightarrow> ParserConfig" where
  "plainConfig m = \<lparr>mode = m, extension = None\<rparr>"

definition updateConfig :: "WriteMode \<Rightarrow> ParserConfig" where
  "updateConfig m =
     \<lparr>mode = UpdateMode, extension = Some (updateExtension (Parser_start (plainConfig m)))\<rparr>"

section \<open>The two-resume contract, in the spec's words\<close>

text \<open>
  The contract of section 4.2 for a producer that wraps the operand's parser under
  \<open>tag\<close>: an error of the operand's parser is the producer's error; otherwise the
  first resume gives the filled operand under the tag; without \<open>transform\<close> that
  result is final and the producer is exhausted; with \<open>transform\<close> the producer is
  not done and the second resume gives the transformed operand under the same tag, final,
  after which the producer is exhausted.
\<close>

definition twoResumeContract :: "bool \<Rightarrow> op_tag \<Rightarrow> handle \<Rightarrow> handle \<Rightarrow> bool" where
  "twoResumeContract tr tag parser producer =
     (case resume parser of
        Inl e \<Rightarrow> resume producer = Inl e
      | Inr (r1, parser1) \<Rightarrow>
          (case resume producer of
             Inl e \<Rightarrow> False
           | Inr (q1, producer1) \<Rightarrow>
               value_of q1 = Some (VOp tag (value_of r1)) \<and>
               (if tr
                then is_done q1 = False \<and>
                     (case resume parser1 of
                        Inl e \<Rightarrow> resume producer1 = Inl e
                      | Inr (r2, parser2) \<Rightarrow>
                          resume producer1 =
                            Inr (IteratorResult (Some (VOp tag (value_of r2))) True, Finished))
                else is_done q1 = True \<and> producer1 = Finished)))"

text \<open>
  The options that section 4.2 gives the operand's parser: \<^verbatim>\<open>fill:false\<close>, the caller's
  \<^verbatim>\<open>transform\<close> (\<^verbatim>\<open>true\<close> when left out) and the caller's path extended by one
  segment.
\<close>

definition operandOptions :: "ExtensionParserOptions \<Rightarrow> string \<Rightarrow> ParserOptions" where
  "operandOptions options seg =
     \<lparr>transform = Some (case transform options of None \<Rightarrow> True | Some t \<Rightarrow> t),
      valuePath = Some ((case valuePath options of None \<Rightarrow> [] | Some p \<Rightarrow> p) @ [Name seg]),
      fill = Some False\<rparr>"

definition isSetValue :: "val \<Rightarrow> bool" where
  "isSetValue v = (case v of VSet xs \<Rightarrow> True | _ \<Rightarrow> False)"

text \<open>The value of the first and of the second resume of a handle, or the error thrown.\<close>

definition firstValue :: "handle \<Rightarrow> SchemaError + unknown" where
  "firstValue g = (case resume g of Inl e \<Rightarrow> Inl e | Inr (r, g') \<Rightarrow> Inr (value_of r))"

definition secondValue :: "handle \<Rightarrow> SchemaError + unknown" where
  "secondValue g = (case resume g of Inl e \<Rightarrow> Inl e | Inr (r, g') \<Rightarrow> firstValue g')"

definition wrapped :: "op_tag \<Rightarrow> SchemaError + unknown \<Rightarrow> SchemaError + unknown" where
  "wrapped tag r = (case r of Inl e \<Rightarrow> Inl e | Inr v \<Rightarrow> Inr (Some (VOp tag v)))"

section \<open>Conformance to a schema, in the spec's words\<close>

text \<open>
  What section 4.3 checks of a value, as a predicate of the value alone: the kind fits
  (element-wise for a list or a set; for a map, every key is an attribute of the schema,
  every attribute that is present fits and every absent one is not required in the mode),
  a union has a member that fits, and the validator of the mode accepts.
\<close>

definition accepted :: "WriteMode \<Rightarrow> SchemaProps \<Rightarrow> val \<Rightarrow> bool" where
  "accepted m p v =
     (case modeValidator m p of
        None \<Rightarrow> True
      | Some f \<Rightarrow> (case f v of Accepts b \<Rightarrow> b | Message s \<Rightarrow> False))"

function (sequential) conforms :: "WriteMode \<Rightarrow> Schema \<Rightarrow> val \<Rightarrow> bool"
and conformsAll :: "WriteMode \<Rightarrow> Schema \<Rightarrow> val list \<Rightarrow> bool"
and conformsChildren :: "WriteMode \<Rightarrow> (string \<times> Schema) list \<Rightarrow> (string, val) fmap \<Rightarrow> bool"
and conformsAny :: "WriteMode \<Rightarrow> Schema list \<Rightarrow> val \<Rightarrow> bool"
where
  "conforms m (Scalar k p) v = (hasKind k v \<and> accepted m p v)"
| "conforms m (SetOf elem p) v =
     (case v of VSet xs \<Rightarrow> conformsAll m elem xs \<and> accepted m p v | _ \<Rightarrow> False)"
| "conforms m (ListOf elem p) v =
     (case v of VList xs \<Rightarrow> conformsAll m elem xs \<and> accepted m p v | _ \<Rightarrow> False)"
| "conforms m (MapOf children p) v =
     (case v of
        VMap mp \<Rightarrow>
          fmdom mp |\<subseteq>| fset_of_list (map fst children) \<and> conformsChildren m children mp \<and>
          accepted m p v
      | _ \<Rightarrow> False)"
| "conforms m (Item children p) v =
     (case v of
        VMap mp \<Rightarrow>
          fmdom mp |\<subseteq>| fset_of_list (map fst children) \<and> conformsChildren m children mp \<and>
          accepted m p v
      | _ \<Rightarrow> False)"
| "conforms m (AnyOf members p) v = (conformsAny m members v \<and> accepted m p v)"
| "conformsAll m elem [] = True"
| "conformsAll m elem (x # xs) = (conforms m elem x \<and> conformsAll m elem xs)"
| "conformsChildren m [] mp = True"
| "conformsChildren m ((name, child) # rest) mp =
     ((case fmlookup mp name of
         None \<Rightarrow> isRequired m (props_of child) = False
       | Some x \<Rightarrow> conforms m child x) \<and>
      conformsChildren m rest mp)"
| "conformsAny m [] v = False"
| "conformsAny m (member # rest) v = (conforms m member v \<or> conformsAny m rest v)"
  by pat_completeness auto
termination
  apply (relation "inv_image (less_than <*lex*> less_than)
    (\<lambda>x. case x of
       Inl (Inl (m, schema, v)) \<Rightarrow> (3 * size schema + 1, 0)
     | Inl (Inr (m, elem, xs)) \<Rightarrow> (3 * size elem + 3, length xs)
     | Inr (Inl (m, children, mp)) \<Rightarrow> (3 * size_list (size_prod (\<lambda>_. 0) size) children, 0)
     | Inr (Inr (m, members, v)) \<Rightarrow> (3 * size_list size members, 0))")
  apply (rule wf_inv_image, rule wf_lex_prod, rule wf_less_than, rule wf_less_than)
  apply simp_all
  done

definition conformsInput :: "WriteMode \<Rightarrow> Schema \<Rightarrow> unknown \<Rightarrow> bool" where
  "conformsInput m schema raw =
     (case raw of None \<Rightarrow> isRequired m (props_of schema) = False | Some v \<Rightarrow> conforms m schema v)"

text \<open>
  The shape alone: the same conditions without the validators. A value conforms when it
  matches the shape and the validator of the mode accepts at every node.
\<close>

function (sequential) matchesShape :: "WriteMode \<Rightarrow> Schema \<Rightarrow> val \<Rightarrow> bool"
and matchesAll :: "WriteMode \<Rightarrow> Schema \<Rightarrow> val list \<Rightarrow> bool"
and matchesChildren :: "WriteMode \<Rightarrow> (string \<times> Schema) list \<Rightarrow> (string, val) fmap \<Rightarrow> bool"
and matchesAny :: "WriteMode \<Rightarrow> Schema list \<Rightarrow> val \<Rightarrow> bool"
where
  "matchesShape m (Scalar k p) v = hasKind k v"
| "matchesShape m (SetOf elem p) v = (case v of VSet xs \<Rightarrow> matchesAll m elem xs | _ \<Rightarrow> False)"
| "matchesShape m (ListOf elem p) v = (case v of VList xs \<Rightarrow> matchesAll m elem xs | _ \<Rightarrow> False)"
| "matchesShape m (MapOf children p) v =
     (case v of
        VMap mp \<Rightarrow>
          fmdom mp |\<subseteq>| fset_of_list (map fst children) \<and> matchesChildren m children mp
      | _ \<Rightarrow> False)"
| "matchesShape m (Item children p) v =
     (case v of
        VMap mp \<Rightarrow>
          fmdom mp |\<subseteq>| fset_of_list (map fst children) \<and> matchesChildren m children mp
      | _ \<Rightarrow> False)"
| "matchesShape m (AnyOf members p) v = matchesAny m members v"
| "matchesAll m elem [] = True"
| "matchesAll m elem (x # xs) = (matchesShape m elem x \<and> matchesAll m elem xs)"
| "matchesChildren m [] mp = True"
| "matchesChildren m ((name, child) # rest) mp =
     ((case fmlookup mp name of
         None \<Rightarrow> isRequired m (props_of child) = False
       | Some x \<Rightarrow> matchesShape m child x) \<and>
      matchesChildren m rest mp)"
| "matchesAny m [] v = False"
| "matchesAny m (member # rest) v = (matchesShape m member v \<or> matchesAny m rest v)"
  by pat_completeness auto
termination
  apply (relation "inv_image (less_than <*lex*> less_than)
    (\<lambda>x. case x of
       Inl (Inl (m, schema, v)) \<Rightarrow> (3 * size schema + 1, 0)
     | Inl (Inr (m, elem, xs)) \<Rightarrow> (3 * size elem + 3, length xs)
     | Inr (Inl (m, children, mp)) \<Rightarrow> (3 * size_list (size_prod (\<lambda>_. 0) size) children, 0)
     | Inr (Inr (m, members, v)) \<Rightarrow> (3 * size_list size members, 0))")
  apply (rule wf_inv_image, rule wf_lex_prod, rule wf_less_than, rule wf_less_than)
  apply simp_all
  done

section \<open>The sentinel predicates and the Set extension\<close>

lemma payload_wrapper [simp]: "payload tag (Some (VOp tag v)) = v"
  by (simp add: payload_def)

lemma isAddition_wrapper [simp]: "isAddition (Some (VOp tag (Some v))) = (tag = ADD)"
  by (auto simp: isAddition_def isOperation_def carries_def payload_def)

lemma isDeletion_wrapper [simp]: "isDeletion (Some (VOp tag (Some v))) = (tag = DELETE)"
  by (auto simp: isDeletion_def isOperation_def carries_def payload_def)

text \<open>
  C7: each sentinel predicate is a total function of an arbitrary input (\<^verbatim>\<open>undefined\<close>
  included) and is true exactly for an object that carries the matching tag with a
  defined payload.
\<close>

theorem sentinel_predicates_iff:
  "isAddition x = (\<exists>v. x = Some (VOp ADD (Some v))) \<and>
   isDeletion x = (\<exists>v. x = Some (VOp DELETE (Some v))) \<and>
   isRemoval x = (\<exists>v. x = Some (VOp REMOVE (Some v)))"
  by (auto simp: isAddition_def isDeletion_def isRemoval_def isOperation_def carries_def
      payload_def split: option.splits val.splits)

text \<open>
  C5: an input that is neither an addition nor a deletion wrapper with a defined payload
  is not an extension: the result is \<^verbatim>\<open>{isExtension: false, unextendedInput: input}\<close>
  with the input unchanged, whatever the schema, the options and the parser.
\<close>

theorem parseSetExtension_unrecognized:
  assumes "\<not> (isAddition input \<and> payload ADD input \<noteq> None)"
    and "\<not> (isDeletion input \<and> payload DELETE input \<noteq> None)"
  shows "parseSetExtension start schema input options = NotExtension input"
  using assms by (simp add: parseSetExtension_def Let_def)

theorem parseSetExtension_unrecognized_witness:
  "\<not> (isAddition (Some (VSet [VStr ''a''])) \<and> payload ADD (Some (VSet [VStr ''a''])) \<noteq> None) \<and>
   \<not> (isDeletion (Some (VSet [VStr ''a''])) \<and> payload DELETE (Some (VSet [VStr ''a''])) \<noteq> None) \<and>
   parseSetExtension (Parser_start (plainConfig CreateMode)) (SetOf (Scalar KString no_props) no_props) (Some (VSet [VStr ''a''])) \<lparr>transform = None, valuePath = None\<rparr>
     = NotExtension (Some (VSet [VStr ''a'']))"
proof -
  have a: "\<not> (isAddition (Some (VSet [VStr ''a''])) \<and> payload ADD (Some (VSet [VStr ''a''])) \<noteq> None)"
    by (simp add: payload_def)
  have d: "\<not> (isDeletion (Some (VSet [VStr ''a''])) \<and> payload DELETE (Some (VSet [VStr ''a''])) \<noteq> None)"
    by (simp add: payload_def)
  show ?thesis using a d parseSetExtension_unrecognized [OF a d] by simp
qed

lemma operandParser_contract:
  "twoResumeContract tr tag
     (start schema (payload tag input)
        \<lparr>transform = Some tr, valuePath = Some ((case vp of None \<Rightarrow> [] | Some p \<Rightarrow> p) @ [Name seg]),
         fill = Some False\<rparr>)
     (operandParser start tag seg schema input tr vp)"
  by (auto simp: twoResumeContract_def operandParser_def Let_def split: sum.splits)

text \<open>
  C4: for a recognized wrapper (\<^verbatim>\<open>$ADD\<close> or \<^verbatim>\<open>$DELETE\<close> with a defined payload) the
  producer of the extension obeys the two-resume contract with respect to the operand's
  parser: the first resume gives the filled operand under the tag; without
  \<^verbatim>\<open>transform\<close> the producer is then exhausted; with \<^verbatim>\<open>transform\<close> the second resume
  gives the transformed operand under the same tag and exhausts the producer. An error of
  the operand's parser is raised by the resume that reaches it.
\<close>

theorem extensionParser_two_resume:
  "twoResumeContract (case transform options of None \<Rightarrow> True | Some t \<Rightarrow> t) ADD
     (start schema (Some v) (operandOptions options ''$ADD''))
     (extensionParser (parseSetExtension start schema (Some (VOp ADD (Some v))) options)) \<and>
   twoResumeContract (case transform options of None \<Rightarrow> True | Some t \<Rightarrow> t) DELETE
     (start schema (Some v) (operandOptions options ''$DELETE''))
     (extensionParser (parseSetExtension start schema (Some (VOp DELETE (Some v))) options))"
  using operandParser_contract [of _ ADD start schema "Some (VOp ADD (Some v))" "valuePath options" "''$ADD''"]
    operandParser_contract [of _ DELETE start schema "Some (VOp DELETE (Some v))" "valuePath options" "''$DELETE''"]
  by (simp add: parseSetExtension_def Let_def operandOptions_def)

lemma operandParser_values:
  "firstValue (operandParser start tag seg schema input tr vp) =
     wrapped tag (firstValue (start schema (payload tag input)
        \<lparr>transform = Some tr, valuePath = Some ((case vp of None \<Rightarrow> [] | Some p \<Rightarrow> p) @ [Name seg]),
         fill = Some False\<rparr>))"
  "secondValue (operandParser start tag seg schema input tr vp) =
     (if tr
      then wrapped tag (secondValue (start schema (payload tag input)
        \<lparr>transform = Some tr, valuePath = Some ((case vp of None \<Rightarrow> [] | Some p \<Rightarrow> p) @ [Name seg]),
         fill = Some False\<rparr>))
      else (case firstValue (start schema (payload tag input)
        \<lparr>transform = Some tr, valuePath = Some ((case vp of None \<Rightarrow> [] | Some p \<Rightarrow> p) @ [Name seg]),
         fill = Some False\<rparr>) of Inl e \<Rightarrow> Inl e | Inr v \<Rightarrow> Inr None))"
  by (auto simp: firstValue_def secondValue_def wrapped_def operandParser_def Let_def split: sum.splits)

text \<open>
  C1, as amended: for every schema the extension is given (a Set schema, by its type) and
  every wrapper with a defined payload \<open>v\<close>, the operand \<open>v\<close> is parsed against that
  schema itself, the Set schema and not its element schema, with \<^verbatim>\<open>fill:false\<close>, the
  caller's \<^verbatim>\<open>transform\<close> and the path extended by \<^verbatim>\<open>'$ADD'\<close> or \<^verbatim>\<open>'$DELETE'\<close>; each
  result of the operand's parser comes back under the same tag.
\<close>

theorem parseSetExtension_operand_schema:
  "firstValue (extensionParser (parseSetExtension start schema (Some (VOp ADD (Some v))) options)) =
     wrapped ADD (firstValue (start schema (Some v) (operandOptions options ''$ADD''))) \<and>
   firstValue (extensionParser (parseSetExtension start schema (Some (VOp DELETE (Some v))) options)) =
     wrapped DELETE (firstValue (start schema (Some v) (operandOptions options ''$DELETE''))) \<and>
   secondValue (extensionParser (parseSetExtension start schema (Some (VOp ADD (Some v))) options)) =
     (if transform (operandOptions options ''$ADD'') = Some True
      then wrapped ADD (secondValue (start schema (Some v) (operandOptions options ''$ADD'')))
      else (case firstValue (start schema (Some v) (operandOptions options ''$ADD'')) of
              Inl e \<Rightarrow> Inl e | Inr f \<Rightarrow> Inr None)) \<and>
   secondValue (extensionParser (parseSetExtension start schema (Some (VOp DELETE (Some v))) options)) =
     (if transform (operandOptions options ''$DELETE'') = Some True
      then wrapped DELETE (secondValue (start schema (Some v) (operandOptions options ''$DELETE'')))
      else (case firstValue (start schema (Some v) (operandOptions options ''$DELETE'')) of
              Inl e \<Rightarrow> Inl e | Inr f \<Rightarrow> Inr None))"
  by (simp add: parseSetExtension_def Let_def operandParser_values operandOptions_def)

text \<open>
  C1, as stated, fails: on a Set of strings the operand \<^verbatim>\<open>'a'\<close> parses against the
  element schema, so the claim predicts \<^verbatim>\<open>{ADD: 'a'}\<close>; the extension raises a type
  mismatch at \<^verbatim>\<open>$ADD\<close>, because it parses the operand against the Set schema.
\<close>

theorem operand_not_parsed_against_elements:
  "wrapped ADD (firstValue (Parser_start (plainConfig CreateMode) (Scalar KString no_props)
      (Some (VStr ''a'')) (operandOptions \<lparr>transform = Some False, valuePath = None\<rparr> ''$ADD'')))
     = Inr (Some (VOp ADD (Some (VStr ''a'')))) \<and>
   firstValue (extensionParser (parseSetExtension (Parser_start (plainConfig CreateMode))
      (SetOf (Scalar KString no_props) no_props) (Some (VOp ADD (Some (VStr ''a''))))
      \<lparr>transform = Some False, valuePath = None\<rparr>))
     = Inl \<lparr>path = [Name ''$ADD''], reason = TypeMismatch\<rparr>"
  by (simp add: parseSetExtension_def Let_def operandParser_def operandOptions_def Parser_start_def
      plainConfig_def consult_def fillValue_def firstValue_def checkValidator_def modeValidator_def
      no_props_def deliver_def wrapped_def parse_node.simps parse_kind.simps)

section \<open>The list schema builder\<close>

lemma overwrite_simps:
  "overwrite p (no_props\<lparr>required := Some r\<rparr>) = p\<lparr>required := Some r\<rparr>"
  "overwrite p (no_props\<lparr>hidden := Some h\<rparr>) = p\<lparr>hidden := Some h\<rparr>"
  "overwrite p (no_props\<lparr>key := Some k, required := Some r\<rparr>) = p\<lparr>key := Some k, required := Some r\<rparr>"
  "overwrite p (no_props\<lparr>savedAs := Some s\<rparr>) = p\<lparr>savedAs := Some s\<rparr>"
  "overwrite p (no_props\<lparr>keyDefault := Some d\<rparr>) = p\<lparr>keyDefault := Some d\<rparr>"
  "overwrite p (no_props\<lparr>putDefault := Some d\<rparr>) = p\<lparr>putDefault := Some d\<rparr>"
  "overwrite p (no_props\<lparr>updateDefault := Some d\<rparr>) = p\<lparr>updateDefault := Some d\<rparr>"
  "overwrite p (no_props\<lparr>keyLink := Some l\<rparr>) = p\<lparr>keyLink := Some l\<rparr>"
  "overwrite p (no_props\<lparr>putLink := Some l\<rparr>) = p\<lparr>putLink := Some l\<rparr>"
  "overwrite p (no_props\<lparr>updateLink := Some l\<rparr>) = p\<lparr>updateLink := Some l\<rparr>"
  "overwrite p (no_props\<lparr>keyValidator := Some f\<rparr>) = p\<lparr>keyValidator := Some f\<rparr>"
  "overwrite p (no_props\<lparr>putValidator := Some f\<rparr>) = p\<lparr>putValidator := Some f\<rparr>"
  "overwrite p (no_props\<lparr>updateValidator := Some f\<rparr>) = p\<lparr>updateValidator := Some f\<rparr>"
  by (simp_all add: overwrite_def no_props_def overwriteProp_def)

text \<open>
  C6, as amended: every mutator of the list schema returns a new schema with the same
  element schema, in which exactly one property is overwritten and every other property
  is that of the receiver, except \<^verbatim>\<open>key\<close>, which overwrites two: \<^verbatim>\<open>key\<close> and
  \<^verbatim>\<open>required\<close>, set to \<^verbatim>\<open>'always'\<close>. \<^verbatim>\<open>default\<close>, \<^verbatim>\<open>link\<close> and \<^verbatim>\<open>validate\<close>
  overwrite the key-mode property when the receiver is a key and the put-mode property
  otherwise. The receiver is a value: the mutator returns a schema and changes nothing.
\<close>

theorem ListSchema_mutators_overwrite:
  fixes self :: "'e ListSchema"
  shows
  "ListSchema_required self r =
     self\<lparr>props := (props self)\<lparr>required := Some (case r of None \<Rightarrow> AtLeastOnce | Some x \<Rightarrow> x)\<rparr>\<rparr> \<and>
   ListSchema_optional self = self\<lparr>props := (props self)\<lparr>required := Some Never\<rparr>\<rparr> \<and>
   ListSchema_hidden self h =
     self\<lparr>props := (props self)\<lparr>hidden := Some (case h of None \<Rightarrow> True | Some x \<Rightarrow> x)\<rparr>\<rparr> \<and>
   ListSchema_key self k =
     self\<lparr>props := (props self)\<lparr>key := Some (case k of None \<Rightarrow> True | Some x \<Rightarrow> x),
                                 required := Some Always\<rparr>\<rparr> \<and>
   ListSchema_savedAs self s = self\<lparr>props := (props self)\<lparr>savedAs := Some s\<rparr>\<rparr> \<and>
   ListSchema_keyDefault self d = self\<lparr>props := (props self)\<lparr>keyDefault := Some d\<rparr>\<rparr> \<and>
   ListSchema_putDefault self d = self\<lparr>props := (props self)\<lparr>putDefault := Some d\<rparr>\<rparr> \<and>
   ListSchema_updateDefault self d = self\<lparr>props := (props self)\<lparr>updateDefault := Some d\<rparr>\<rparr> \<and>
   ListSchema_default self d =
     (if key (props self) = Some True
      then self\<lparr>props := (props self)\<lparr>keyDefault := Some d\<rparr>\<rparr>
      else self\<lparr>props := (props self)\<lparr>putDefault := Some d\<rparr>\<rparr>) \<and>
   ListSchema_keyLink self l = self\<lparr>props := (props self)\<lparr>keyLink := Some l\<rparr>\<rparr> \<and>
   ListSchema_putLink self l = self\<lparr>props := (props self)\<lparr>putLink := Some l\<rparr>\<rparr> \<and>
   ListSchema_updateLink self l = self\<lparr>props := (props self)\<lparr>updateLink := Some l\<rparr>\<rparr> \<and>
   ListSchema_link self l =
     (if key (props self) = Some True
      then self\<lparr>props := (props self)\<lparr>keyLink := Some l\<rparr>\<rparr>
      else self\<lparr>props := (props self)\<lparr>putLink := Some l\<rparr>\<rparr>) \<and>
   ListSchema_keyValidate self f = self\<lparr>props := (props self)\<lparr>keyValidator := Some f\<rparr>\<rparr> \<and>
   ListSchema_putValidate self f = self\<lparr>props := (props self)\<lparr>putValidator := Some f\<rparr>\<rparr> \<and>
   ListSchema_updateValidate self f = self\<lparr>props := (props self)\<lparr>updateValidator := Some f\<rparr>\<rparr> \<and>
   ListSchema_validate self f =
     (if key (props self) = Some True
      then self\<lparr>props := (props self)\<lparr>keyValidator := Some f\<rparr>\<rparr>
      else self\<lparr>props := (props self)\<lparr>putValidator := Some f\<rparr>\<rparr>)"
  by (simp add: ListSchema_required_def ListSchema_optional_def ListSchema_hidden_def
      ListSchema_key_def ListSchema_savedAs_def ListSchema_keyDefault_def ListSchema_putDefault_def
      ListSchema_updateDefault_def ListSchema_default_def ListSchema_keyLink_def
      ListSchema_putLink_def ListSchema_updateLink_def ListSchema_link_def
      ListSchema_keyValidate_def ListSchema_putValidate_def ListSchema_updateValidate_def
      ListSchema_validate_def ifThenElse_def overwrite_simps Let_def)

text \<open>
  C6, as stated, fails for \<^verbatim>\<open>key\<close>: on a schema without properties, \<^verbatim>\<open>key(true)\<close>
  changes two properties, \<^verbatim>\<open>key\<close> and \<^verbatim>\<open>required\<close>.
\<close>

theorem key_overwrites_two_properties:
  "required (props (ListSchema_key \<lparr>elements = VStr ''e'', props = no_props\<rparr> (Some True))) = Some Always \<and>
   required (props \<lparr>elements = VStr ''e'', props = no_props\<rparr>) = None \<and>
   key (props (ListSchema_key \<lparr>elements = VStr ''e'', props = no_props\<rparr> (Some True))) = Some True \<and>
   key (props \<lparr>elements = VStr ''e'', props = no_props\<rparr>) = None"
  by (simp add: ListSchema_key_def overwrite_def overwriteProp_def no_props_def)

text \<open>
  C10: for every list schema and every boolean \<open>b\<close>, \<^verbatim>\<open>key(b)\<close> returns a schema
  whose \<^verbatim>\<open>required\<close> property is \<^verbatim>\<open>'always'\<close> and whose \<^verbatim>\<open>key\<close> property is \<open>b\<close>,
  whatever required mode was configured before; nothing else changes.
\<close>

theorem ListSchema_key_always_required:
  fixes self :: "'e ListSchema"
  shows
  "required (props (ListSchema_key self (Some b))) = Some Always \<and>
   key (props (ListSchema_key self (Some b))) = Some b \<and>
   required (props (ListSchema_key (ListSchema_required self r) (Some b))) = Some Always \<and>
   ListSchema_key self (Some b) = self\<lparr>props := (props self)\<lparr>key := Some b, required := Some Always\<rparr>\<rparr>"
  by (simp add: ListSchema_key_def ListSchema_required_def overwrite_simps Let_def)

section \<open>The parser engine: one node\<close>

lemma parse_node_defined:
  "consult cfg schema (Some v) tr pth = NotExtension (Some v) \<Longrightarrow>
   parse_node cfg schema (Some v) fl tr pth ctx =
     (case parse_kind cfg schema v fl tr pth ctx of
        Inl e \<Rightarrow> Throw e
      | Inr (filled, rest) \<Rightarrow>
          (case checkValidator (mode cfg) (props_of schema) filled pth of
             Some e \<Rightarrow> Throw e
           | None \<Rightarrow> deliver tr (Some filled) rest))"
  by (simp add: parse_node.simps fillValue_def)

lemma parse_node_undefined:
  "consult cfg schema None tr pth = NotExtension None \<Longrightarrow>
   fillValue (mode cfg) (props_of schema) fl ctx None = None \<Longrightarrow>
   parse_node cfg schema None fl tr pth ctx =
     (if isRequired (mode cfg) (props_of schema)
      then Throw \<lparr>path = pth, reason = RequiredAttributeMissing\<rparr>
      else deliver tr None (Return None))"
  by (simp add: parse_node.simps)

lemma parse_node_extension:
  "consult cfg schema raw tr pth = IsExtension g \<Longrightarrow> parse_node cfg schema raw fl tr pth ctx = g"
  by (simp add: parse_node.simps)

lemma consult_plain [simp]: "consult (plainConfig m) schema raw tr pth = NotExtension raw"
  by (simp add: consult_def plainConfig_def)

lemma mode_plain [simp]: "mode (plainConfig m) = m"
  by (simp add: plainConfig_def)

lemma mode_update [simp]: "mode (updateConfig m) = UpdateMode"
  by (simp add: updateConfig_def)

lemma consult_update:
  "consult (updateConfig m) schema raw tr pth =
     (case schema of
        SetOf elem p \<Rightarrow>
          parseSetExtension (Parser_start (plainConfig m)) schema raw
            \<lparr>transform = Some tr, valuePath = Some pth\<rparr>
      | _ \<Rightarrow> NotExtension raw)"
  by (simp add: consult_def updateConfig_def updateExtension_def)

lemma fillValue_unfilled [simp]: "fillValue m p False ctx input = input"
  by (simp add: fillValue_def)

lemma fillValue_defined [simp]: "fillValue m p fl ctx (Some v) = Some v"
  by (simp add: fillValue_def)

lemma fillValue_nothing:
  "modeLink m p = None \<Longrightarrow> modeDefault m p = None \<Longrightarrow> fillValue m p fl ctx None = None"
  by (simp add: fillValue_def resolveDefault_def)

lemma parse_kind_not_a_set:
  "\<not> isSetValue v \<Longrightarrow>
   parse_kind cfg (SetOf elem p) v fl tr pth ctx = Inl \<lparr>path = pth, reason = TypeMismatch\<rparr>"
  by (cases v) (simp_all add: isSetValue_def parse_kind.simps)

lemma isRequired_iff:
  "isRequired m p = (requiredMode p = Always \<or> (requiredMode p = AtLeastOnce \<and> m = CreateMode))"
  by (simp add: isRequired_def split: SchemaRequiredProp.splits)

lemma consult_update_undefined [simp]:
  "consult (updateConfig m) schema None tr pth = NotExtension None"
  by (simp add: consult_update parseSetExtension_def isAddition_def isDeletion_def isOperation_def
      carries_def split: Schema.splits)

lemma defined_Some [simp]: "defined (map Some xs) = xs"
  by (induction xs) (simp_all add: defined_def)

lemma lookup_entries_children:
  "fmlookup (entries (map (\<lambda>(n, c). (n, fmlookup m n)) cs)) k =
     (if k \<in> fst ` set cs then fmlookup m k else None)"
proof (induction cs)
  case Nil
  then show ?case by simp
next
  case (Cons a cs)
  obtain n c where a: "a = (n, c)" by (cases a)
  show ?case
    using Cons.IH by (cases "fmlookup m n") (auto simp: a)
qed

lemma entries_children:
  assumes "fmdom m |\<subseteq>| fset_of_list (map fst cs)"
  shows "entries (map (\<lambda>(n, c). (n, fmlookup m n)) cs) = m"
proof (rule fmap_ext)
  fix k
  show "fmlookup (entries (map (\<lambda>(n, c). (n, fmlookup m n)) cs)) k = fmlookup m k"
  proof (cases "k \<in> fst ` set cs")
    case True
    then show ?thesis by (simp add: lookup_entries_children)
  next
    case False
    have "k |\<in>| fmdom m \<Longrightarrow> k |\<in>| fset_of_list (map fst cs)"
      using assms by (rule fsubsetD)
    with False have "k |\<notin>| fmdom m"
      by (auto simp only: fset_of_list_elem set_map)
    then have "fmlookup m k = None" by (simp add: fmdom_notD)
    with False show ?thesis by (simp add: lookup_entries_children)
  qed
qed


lemma step_Return [simp]: "step (Return v) = Inr (v, Finished)"
  by (simp add: step_def)

lemma step_Throw [simp]: "step (Throw e) = Inl e"
  by (simp add: step_def)

lemma deliver_final [simp]: "deliver False v rest = Return v"
  by (simp add: deliver_def)

section \<open>The examples of the spec\<close>

text \<open>
  The modelled parser on the examples of section 8 of the spec: a set attribute with a
  create-mode default, an addition to a set attribute in update mode, and a renamed
  attribute with a create-mode default.
\<close>

lemma example_default_set:
  "Parser_start (plainConfig CreateMode)
     (Item [(''qty'', SetOf (Scalar KNumber no_props)
                       (no_props\<lparr>putDefault := Some (Value (Some (VSet [])))\<rparr>))] no_props)
     (Some (VMap fmempty)) \<lparr>transform = Some True, valuePath = None, fill = Some True\<rparr>
   = Yield (Some (VMap (fmupd ''qty'' (VSet []) fmempty)))
       (Return (Some (VMap (fmupd ''qty'' (VSet []) fmempty))))"
  by (simp add: Parser_start_def parse_node.simps parse_kind.simps fillValue_def modeLink_def
      modeDefault_def resolveDefault_def no_props_def checkValidator_def modeValidator_def
      deliver_def step_def finishChildren_def finishElements_def storedName_def defined_def)

lemma example_add_to_tags:
  "Parser_start (updateConfig CreateMode)
     (Item [(''tags'', SetOf (Scalar KString no_props) no_props)] no_props)
     (Some (VMap (fmupd ''tags'' (VOp ADD (Some (VSet [VStr ''a'']))) fmempty)))
     \<lparr>transform = Some True, valuePath = None, fill = Some True\<rparr>
   = Yield (Some (VMap (fmupd ''tags'' (VOp ADD (Some (VSet [VStr ''a'']))) fmempty)))
       (Return (Some (VMap (fmupd ''tags'' (VOp ADD (Some (VSet [VStr ''a'']))) fmempty))))"
  by (simp add: Parser_start_def parse_node.simps parse_kind.simps consult_update
      parseSetExtension_def operandParser_def Let_def no_props_def checkValidator_def
      modeValidator_def deliver_def step_def finishChildren_def finishElements_def storedName_def
      defined_def encode_def)

lemma example_saved_as:
  "Parser_start (plainConfig CreateMode)
     (Item [(''pk'', Scalar KNumber
                      (no_props\<lparr>savedAs := Some (Some ''pk_stored''),
                                putDefault := Some (Value (Some (VNum 5)))\<rparr>))] no_props)
     (Some (VMap fmempty)) \<lparr>transform = Some True, valuePath = None, fill = Some True\<rparr>
   = Yield (Some (VMap (fmupd ''pk'' (VNum 5) fmempty)))
       (Return (Some (VMap (fmupd ''pk_stored'' (VNum 5) fmempty))))"
  by (simp add: Parser_start_def parse_node.simps parse_kind.simps fillValue_def modeLink_def
      modeDefault_def resolveDefault_def no_props_def checkValidator_def modeValidator_def
      deliver_def step_def finishChildren_def storedName_def encode_def)

section \<open>Parsing without fill and without transform\<close>

text \<open>
  Without fill and without transform a parse either raises or returns its input, provided
  the extension, where it takes over, does the same.
\<close>

lemma identity_or_throw:
  assumes ext: "\<And>schema raw pth.
      consult cfg0 schema raw False pth = NotExtension raw \<or>
      consult cfg0 schema raw False pth = IsExtension (Return raw) \<or>
      (\<exists>e. consult cfg0 schema raw False pth = IsExtension (Throw e))"
  shows "cfg = cfg0 \<Longrightarrow> \<not> fl \<Longrightarrow> \<not> tr \<Longrightarrow>
           parse_node cfg schema raw fl tr pth ctx = Return raw \<or>
           (\<exists>e. parse_node cfg schema raw fl tr pth ctx = Throw e)"
    and "cfg = cfg0 \<Longrightarrow> \<not> fl \<Longrightarrow> \<not> tr \<Longrightarrow>
           (\<exists>rest. parse_kind cfg schema v fl tr pth ctx = Inr (v, rest)) \<or>
           (\<exists>e. parse_kind cfg schema v fl tr pth ctx = Inl e)"
    and "cfg = cfg0 \<Longrightarrow> \<not> fl \<Longrightarrow> \<not> tr \<Longrightarrow>
           (\<exists>rs. parse_elements cfg elem xs i fl tr pth ctx = Inr rs \<and> map fst rs = map Some xs) \<or>
           (\<exists>e. parse_elements cfg elem xs i fl tr pth ctx = Inl e)"
    and "cfg = cfg0 \<Longrightarrow> \<not> fl \<Longrightarrow> \<not> tr \<Longrightarrow>
           (\<exists>rs. parse_children cfg children m fl tr pth acc = Inr rs \<and>
                 map (\<lambda>(n, s, f, g). (n, f)) rs = map (\<lambda>(n, c). (n, fmlookup m n)) children) \<or>
           (\<exists>e. parse_children cfg children m fl tr pth acc = Inl e)"
    and "cfg = cfg0 \<Longrightarrow> \<not> fl \<Longrightarrow> \<not> tr \<Longrightarrow>
           (\<exists>rest. parse_members cfg members w fl tr pth ctx = Some (w, rest)) \<or>
           parse_members cfg members w fl tr pth ctx = None"
proof (induction cfg schema raw fl tr pth ctx and cfg schema v fl tr pth ctx
    and cfg elem xs i fl tr pth ctx and cfg children m fl tr pth acc
    and cfg members w fl tr pth ctx
    rule: parse_node_parse_kind_parse_elements_parse_children_parse_members.induct)
  case (1 cfg schema raw fl tr pth ctx)
  have fl: "fl = False" and tr: "tr = False" using 1 by simp_all
  have cfg: "cfg = cfg0" using 1 by simp
  consider (pass) "consult cfg schema raw tr pth = NotExtension raw"
    | (same) "consult cfg schema raw tr pth = IsExtension (Return raw)"
    | (throw) e where "consult cfg schema raw tr pth = IsExtension (Throw e)"
    using ext [of schema raw pth] by (auto simp: cfg tr)
  then show ?case
  proof cases
    case pass
    show ?thesis
    proof (cases raw)
      case None
      then show ?thesis using pass by (simp add: parse_node.simps fl tr)
    next
      case (Some v)
      have "(\<exists>rest. parse_kind cfg schema v fl tr pth ctx = Inr (v, rest)) \<or>
            (\<exists>e. parse_kind cfg schema v fl tr pth ctx = Inl e)"
        using "1.IH" [of raw v] pass Some 1(2-) by (simp add: fl)
      then show ?thesis
        using pass Some
        by (auto simp: parse_node.simps fl tr split: option.splits)
    qed
  next
    case same
    then show ?thesis by (simp add: parse_node.simps)
  next
    case throw
    then show ?thesis by (simp add: parse_node.simps)
  qed
next
  case (2 cfg k p v fl tr pth ctx)
  then show ?case by (simp add: parse_kind.simps)
next
  case (3 cfg elem p v fl tr pth ctx)
  show ?case
  proof (cases v)
    case (VSet xs)
    then show ?thesis using 3 by (auto simp: parse_kind.simps)
  qed (simp_all add: parse_kind.simps)
next
  case (4 cfg elem p v fl tr pth ctx)
  show ?case
  proof (cases v)
    case (VList xs)
    then show ?thesis using 4 by (auto simp: parse_kind.simps)
  qed (simp_all add: parse_kind.simps)
next
  case (5 cfg children p v fl tr pth ctx)
  show ?case
  proof (cases v)
    case (VMap m)
    then show ?thesis using 5 by (auto simp: parse_kind.simps entries_children)
  qed (simp_all add: parse_kind.simps)
next
  case (6 cfg children p v fl tr pth ctx)
  show ?case
  proof (cases v)
    case (VMap m)
    then show ?thesis using 6 by (auto simp: parse_kind.simps entries_children)
  qed (simp_all add: parse_kind.simps)
next
  case (7 cfg members p v fl tr pth ctx)
  then show ?case by (auto simp: parse_kind.simps)
next
  case (8 cfg elem i fl tr pth ctx)
  then show ?case by simp
next
  case (9 cfg elem x xs i fl tr pth ctx)
  then show ?case by (auto split: sum.splits)
next
  case (10 cfg m fl tr pth acc)
  then show ?case by simp
next
  case (11 cfg name child rest m fl tr pth acc)
  have fl: "fl = False" and tr: "tr = False" using 11 by simp_all
  let ?node = "parse_node cfg child (fmlookup m name) fl tr (pth @ [Name name]) (Some (VMap acc))"
  have "?node = Return (fmlookup m name) \<or> (\<exists>e. ?node = Throw e)"
    using "11.IH"(1) "11.prems" by simp
  then show ?case
  proof
    assume ret: "?node = Return (fmlookup m name)"
    then have st: "step ?node = Inr (fmlookup m name, Finished)" by simp
    have "(\<exists>rs. parse_children cfg rest m fl tr pth
                  (case fmlookup m name of None \<Rightarrow> acc | Some v \<Rightarrow> fmupd name v acc) = Inr rs \<and>
               map (\<lambda>(n, s, f, g). (n, f)) rs = map (\<lambda>(n, c). (n, fmlookup m n)) rest) \<or>
          (\<exists>e. parse_children cfg rest m fl tr pth
                  (case fmlookup m name of None \<Rightarrow> acc | Some v \<Rightarrow> fmupd name v acc) = Inl e)"
      using "11.IH"(2) [OF st refl] "11.prems" by simp
    then show ?thesis
      using st by auto
  next
    assume "\<exists>e. ?node = Throw e"
    then show ?thesis by auto
  qed
next
  case (12 cfg v fl tr pth ctx)
  then show ?case by simp
next
  case (13 cfg member rest v fl tr pth ctx)
  then show ?case by (auto split: sum.splits option.splits)
qed

text \<open>A value that conforms to the schema is accepted, and so returned as it is.\<close>

lemma checkValidator_accepted: "(checkValidator m p v pth = None) = accepted m p v"
  by (auto simp: checkValidator_def accepted_def split: option.splits ValidatorResult.splits bool.splits)

lemma conforms_accepted: "conforms m schema v \<Longrightarrow> accepted m (props_of schema) v"
  by (cases schema; cases v) simp_all

lemma conforms_parse:
  assumes ext: "\<And>schema raw pth.
      consult cfg0 schema raw False pth = NotExtension raw \<or>
      consult cfg0 schema raw False pth = IsExtension (Return raw) \<or>
      (\<exists>e. consult cfg0 schema raw False pth = IsExtension (Throw e))"
    and pass: "\<And>schema raw pth.
      conformsInput (mode cfg0) schema raw \<Longrightarrow> consult cfg0 schema raw False pth = NotExtension raw"
  shows "cfg = cfg0 \<Longrightarrow> \<not> fl \<Longrightarrow> \<not> tr \<Longrightarrow> conformsInput (mode cfg) schema raw \<Longrightarrow>
           parse_node cfg schema raw fl tr pth ctx = Return raw"
    and "cfg = cfg0 \<Longrightarrow> \<not> fl \<Longrightarrow> \<not> tr \<Longrightarrow> conforms (mode cfg) schema v \<Longrightarrow>
           (\<exists>rest. parse_kind cfg schema v fl tr pth ctx = Inr (v, rest))"
    and "cfg = cfg0 \<Longrightarrow> \<not> fl \<Longrightarrow> \<not> tr \<Longrightarrow> conformsAll (mode cfg) elem xs \<Longrightarrow>
           (\<exists>rs. parse_elements cfg elem xs i fl tr pth ctx = Inr rs \<and> map fst rs = map Some xs)"
    and "cfg = cfg0 \<Longrightarrow> \<not> fl \<Longrightarrow> \<not> tr \<Longrightarrow> conformsChildren (mode cfg) children m \<Longrightarrow>
           (\<exists>rs. parse_children cfg children m fl tr pth acc = Inr rs \<and>
                 map (\<lambda>(n, s, f, g). (n, f)) rs = map (\<lambda>(n, c). (n, fmlookup m n)) children)"
    and "cfg = cfg0 \<Longrightarrow> \<not> fl \<Longrightarrow> \<not> tr \<Longrightarrow> conformsAny (mode cfg) members w \<Longrightarrow>
           (\<exists>rest. parse_members cfg members w fl tr pth ctx = Some (w, rest))"
proof (induction cfg schema raw fl tr pth ctx and cfg schema v fl tr pth ctx
    and cfg elem xs i fl tr pth ctx and cfg children m fl tr pth acc
    and cfg members w fl tr pth ctx
    rule: parse_node_parse_kind_parse_elements_parse_children_parse_members.induct)
  case (1 cfg schema raw fl tr pth ctx)
  have fl: "fl = False" and tr: "tr = False" and cfg: "cfg = cfg0" using 1 by simp_all
  have pass': "consult cfg schema raw tr pth = NotExtension raw"
    using pass [of schema raw pth] "1.prems" by (simp add: cfg tr)
  show ?case
  proof (cases raw)
    case None
    then show ?thesis
      using pass' "1.prems" by (simp add: parse_node.simps fl tr conformsInput_def)
  next
    case (Some v)
    have c: "conforms (mode cfg) schema v"
      using "1.prems" Some by (simp add: conformsInput_def)
    have "\<exists>rest. parse_kind cfg schema v fl tr pth ctx = Inr (v, rest)"
      using "1.IH" [of raw v] pass' Some "1.prems" c by (simp add: fl)
    moreover have "checkValidator (mode cfg) (props_of schema) v pth = None"
      using conforms_accepted [OF c] by (simp add: checkValidator_accepted)
    ultimately show ?thesis
      using pass' Some by (auto simp: parse_node.simps fl tr)
  qed
next
  case (2 cfg k p v fl tr pth ctx)
  then show ?case by (simp add: parse_kind.simps)
next
  case (3 cfg elem p v fl tr pth ctx)
  show ?case
  proof (cases v)
    case (VSet xs)
    then show ?thesis using 3 by (auto simp: parse_kind.simps)
  qed (use 3 in simp_all)
next
  case (4 cfg elem p v fl tr pth ctx)
  show ?case
  proof (cases v)
    case (VList xs)
    then show ?thesis using 4 by (auto simp: parse_kind.simps)
  qed (use 4 in simp_all)
next
  case (5 cfg children p v fl tr pth ctx)
  show ?case
  proof (cases v)
    case (VMap m)
    then show ?thesis using 5 by (auto simp: parse_kind.simps entries_children)
  qed (use 5 in simp_all)
next
  case (6 cfg children p v fl tr pth ctx)
  show ?case
  proof (cases v)
    case (VMap m)
    then show ?thesis using 6 by (auto simp: parse_kind.simps entries_children)
  qed (use 6 in simp_all)
next
  case (7 cfg members p v fl tr pth ctx)
  then show ?case by (auto simp: parse_kind.simps)
next
  case (8 cfg elem i fl tr pth ctx)
  then show ?case by simp
next
  case (9 cfg elem x xs i fl tr pth ctx)
  have fl: "fl = False" and tr: "tr = False" using 9 by simp_all
  let ?node = "parse_node cfg elem (Some x) fl tr (pth @ [Index i]) ctx"
  have ret: "?node = Return (Some x)"
    using "9.IH"(1) "9.prems" by (simp add: conformsInput_def)
  then have st: "step ?node = Inr (Some x, Finished)" by simp
  have "\<exists>rs. parse_elements cfg elem xs (Suc i) fl tr pth ctx = Inr rs \<and> map fst rs = map Some xs"
    using "9.IH"(2) [OF st] "9.prems" by simp
  then show ?case using st by auto
next
  case (10 cfg m fl tr pth acc)
  then show ?case by simp
next
  case (11 cfg name child rest m fl tr pth acc)
  have fl: "fl = False" and tr: "tr = False" using 11 by simp_all
  let ?node = "parse_node cfg child (fmlookup m name) fl tr (pth @ [Name name]) (Some (VMap acc))"
  have "conformsInput (mode cfg) child (fmlookup m name)"
    using "11.prems" by (simp add: conformsInput_def)
  then have ret: "?node = Return (fmlookup m name)"
    using "11.IH"(1) "11.prems" by simp
  then have st: "step ?node = Inr (fmlookup m name, Finished)" by simp
  have "\<exists>rs. parse_children cfg rest m fl tr pth
                (case fmlookup m name of None \<Rightarrow> acc | Some v \<Rightarrow> fmupd name v acc) = Inr rs \<and>
             map (\<lambda>(n, s, f, g). (n, f)) rs = map (\<lambda>(n, c). (n, fmlookup m n)) rest"
    using "11.IH"(2) [OF st refl] "11.prems" by simp
  then show ?case using st by auto
next
  case (12 cfg v fl tr pth ctx)
  then show ?case by simp
next
  case (13 cfg member rest v fl tr pth ctx)
  have fl: "fl = False" and tr: "tr = False" and cfg: "cfg = cfg0" using 13 by simp_all
  let ?node = "parse_node cfg member (Some v) fl tr pth ctx"
  have "?node = Return (Some v) \<or> (\<exists>e. ?node = Throw e)"
    using identity_or_throw(1) [OF ext, of cfg fl tr member "Some v" pth ctx]
    by (simp add: fl tr cfg)
  then show ?case
  proof
    assume "?node = Return (Some v)"
    then show ?thesis by simp
  next
    assume "\<exists>e. ?node = Throw e"
    then obtain e where thr: "?node = Throw e" ..
    then have st: "step ?node = Inl e" by simp
    have "\<not> conforms (mode cfg) member v"
    proof
      assume "conforms (mode cfg) member v"
      then have "?node = Return (Some v)"
        using "13.IH"(1) "13.prems" by (simp add: conformsInput_def)
      with thr show False by simp
    qed
    then have "conformsAny (mode cfg) rest v" using "13.prems" by simp
    then have "\<exists>r. parse_members cfg rest v fl tr pth ctx = Some (v, r)"
      using "13.IH"(2) [OF st] "13.prems" by simp
    then show ?thesis using st by simp
  qed
qed

lemma plain_identity_or_throw:
  "parse_node (plainConfig m) schema raw False False pth ctx = Return raw \<or>
   (\<exists>e. parse_node (plainConfig m) schema raw False False pth ctx = Throw e)"
  by (rule identity_or_throw(1) [where ?cfg0.0 = "plainConfig m"]) simp_all

lemma plain_conforms_parse:
  "conformsInput m schema raw \<Longrightarrow>
   parse_node (plainConfig m) schema raw False False pth ctx = Return raw"
  using conforms_parse(1) [where ?cfg0.0 = "plainConfig m" and cfg = "plainConfig m"
      and fl = False and tr = False and schema = schema and raw = raw and pth = pth and ctx = ctx]
  by simp

lemma wrapper_cases:
  assumes "isOperation tag raw"
  obtains x where "raw = Some (VOp tag (Some x))"
  using assms
  by (auto simp: isOperation_def carries_def payload_def split: option.splits val.splits if_splits)

lemma operandParser_final:
  "operandParser (Parser_start (plainConfig m)) tag seg schema (Some (VOp tag (Some x))) False (Some pth)
     = Return (Some (VOp tag (Some x))) \<or>
   (\<exists>e. operandParser (Parser_start (plainConfig m)) tag seg schema (Some (VOp tag (Some x))) False (Some pth)
     = Throw e)"
  using plain_identity_or_throw [of m schema "Some x" "pth @ [Name seg]" None]
  by (auto simp: operandParser_def Parser_start_def Let_def)

lemma update_extension_transparent:
  "consult (updateConfig m) schema raw False pth = NotExtension raw \<or>
   consult (updateConfig m) schema raw False pth = IsExtension (Return raw) \<or>
   (\<exists>e. consult (updateConfig m) schema raw False pth = IsExtension (Throw e))"
proof (cases schema)
  case (SetOf elem p)
  show ?thesis
  proof (cases "isAddition raw")
    case True
    then obtain x where raw: "raw = Some (VOp ADD (Some x))"
      by (auto simp: isAddition_def elim: wrapper_cases)
    show ?thesis
      using operandParser_final [of m ADD "''$ADD''" schema x pth]
      by (auto simp: consult_update SetOf parseSetExtension_def raw)
  next
    case False
    note na = this
    show ?thesis
    proof (cases "isDeletion raw")
      case True
      then obtain x where raw: "raw = Some (VOp DELETE (Some x))"
        by (auto simp: isDeletion_def elim: wrapper_cases)
      show ?thesis
        using operandParser_final [of m DELETE "''$DELETE''" schema x pth]
        by (auto simp: consult_update SetOf parseSetExtension_def raw)
    next
      case False
      then show ?thesis using na by (simp add: consult_update SetOf parseSetExtension_def)
    qed
  qed
qed (simp_all add: consult_update)

lemma update_extension_passes:
  assumes "conformsInput UpdateMode schema raw"
  shows "consult (updateConfig m) schema raw False pth = NotExtension raw"
proof (cases schema)
  case (SetOf elem p)
  have "\<not> isAddition raw" "\<not> isDeletion raw"
    using assms
    by (auto simp: conformsInput_def SetOf isAddition_def isDeletion_def isOperation_def carries_def
        split: option.splits val.splits)
  then show ?thesis by (simp add: consult_update SetOf parseSetExtension_def)
qed (simp_all add: consult_update)

lemma update_conforms_parse:
  "conformsInput UpdateMode schema raw \<Longrightarrow>
   parse_node (updateConfig m) schema raw False False pth ctx = Return raw"
  using conforms_parse(1) [where ?cfg0.0 = "updateConfig m" and cfg = "updateConfig m"
      and fl = False and tr = False and schema = schema and raw = raw and pth = pth and ctx = ctx]
    update_extension_transparent [of m] update_extension_passes [of _ _ m]
  by simp

lemma conforms_matchesShape:
  "conforms m schema v \<Longrightarrow> matchesShape m schema v"
  "conformsAll m elem xs \<Longrightarrow> matchesAll m elem xs"
  "conformsChildren m children mp \<Longrightarrow> matchesChildren m children mp"
  "conformsAny m members v \<Longrightarrow> matchesAny m members v"
  by (induction m schema v and m elem xs and m children mp and m members v
      rule: conforms_conformsAll_conformsChildren_conformsAny.induct)
    (auto split: val.splits option.splits)

section \<open>Properties of the parser\<close>

text \<open>
  C9, as amended: for every schema and every value that matches the schema's shape and
  that the validators of the mode accept at every node (it conforms to the schema in the
  parser's mode), a parse started with \<^verbatim>\<open>fill:false\<close> and \<^verbatim>\<open>transform:false\<close> returns
  the value unchanged on its first resume, which is also final; for a parser without
  extension in any mode, and for the update-mode parser with the Set extension.
\<close>

theorem unfilled_untransformed_parse_is_identity:
  assumes "conforms (mode cfg) schema v"
    and "cfg = plainConfig m \<or> cfg = updateConfig m"
  shows "Parser_start cfg schema (Some v) \<lparr>transform = Some False, valuePath = vp, fill = Some False\<rparr>
           = Return (Some v)"
  using assms plain_conforms_parse [of m schema "Some v"] update_conforms_parse [of schema "Some v" m]
  by (auto simp: Parser_start_def conformsInput_def)

theorem unfilled_untransformed_parse_is_identity_witness:
  "conforms (mode (plainConfig CreateMode))
     (Item [(''tags'', SetOf (Scalar KString no_props) (no_props\<lparr>required := Some Never\<rparr>)),
            (''n'', Scalar KNumber no_props)] no_props)
     (VMap (fmupd ''n'' (VNum 3) fmempty)) \<and>
   (plainConfig CreateMode = plainConfig CreateMode \<or> plainConfig CreateMode = updateConfig CreateMode) \<and>
   Parser_start (plainConfig CreateMode)
     (Item [(''tags'', SetOf (Scalar KString no_props) (no_props\<lparr>required := Some Never\<rparr>)),
            (''n'', Scalar KNumber no_props)] no_props)
     (Some (VMap (fmupd ''n'' (VNum 3) fmempty)))
     \<lparr>transform = Some False, valuePath = None, fill = Some False\<rparr>
   = Return (Some (VMap (fmupd ''n'' (VNum 3) fmempty)))"
proof -
  have h: "conforms (mode (plainConfig CreateMode))
     (Item [(''tags'', SetOf (Scalar KString no_props) (no_props\<lparr>required := Some Never\<rparr>)),
            (''n'', Scalar KNumber no_props)] no_props)
     (VMap (fmupd ''n'' (VNum 3) fmempty))"
    by (simp add: accepted_def modeValidator_def no_props_def isRequired_def requiredMode_def)
  have c: "plainConfig CreateMode = plainConfig CreateMode \<or> plainConfig CreateMode = updateConfig CreateMode"
    by simp
  show ?thesis
    using h c unfilled_untransformed_parse_is_identity [OF h c, of None] by simp
qed

text \<open>
  C9, as stated, fails: validation runs whatever \<^verbatim>\<open>fill\<close> and \<^verbatim>\<open>transform\<close> are. The
  number \<open>3\<close> matches the shape of a number attribute; when the create-mode validator
  of the attribute rejects it, the parse raises \<^verbatim>\<open>ValidationFailed\<close> instead of
  returning \<open>3\<close>.
\<close>

theorem validator_rejects_shaped_input:
  "matchesShape CreateMode
     (Scalar KNumber (no_props\<lparr>putValidator := Some (\<lambda>v. Accepts False)\<rparr>)) (VNum 3) \<and>
   Parser_start (plainConfig CreateMode)
     (Scalar KNumber (no_props\<lparr>putValidator := Some (\<lambda>v. Accepts False)\<rparr>)) (Some (VNum 3))
     \<lparr>transform = Some False, valuePath = Some [Name ''n''], fill = Some False\<rparr>
   = Throw \<lparr>path = [Name ''n''], reason = ValidationFailed ''invalid value''\<rparr>"
  by (simp add: Parser_start_def parse_node_defined parse_kind.simps checkValidator_def
      modeValidator_def no_props_def)

text \<open>
  C2, as amended: for every Set schema and every operand \<open>v\<close> that is valid against the
  Set schema itself (a set whose members fit the element schema), the update-mode parse of
  \<^verbatim>\<open>{ADD: v}\<close> with \<^verbatim>\<open>transform:false\<close> returns exactly \<^verbatim>\<open>{ADD: v}\<close>, whatever the
  caller's \<^verbatim>\<open>fill\<close>: the operand's parse is started with \<^verbatim>\<open>fill:false\<close>.
\<close>

theorem add_operand_returned_unchanged:
  assumes "conforms m (SetOf elem p) v"
  shows "Parser_start (updateConfig m) (SetOf elem p) (Some (VOp ADD (Some v)))
           \<lparr>transform = Some False, valuePath = vp, fill = fl\<rparr>
         = Return (Some (VOp ADD (Some v)))"
proof -
  have "parse_node (plainConfig m) (SetOf elem p) (Some v) False False pth None = Return (Some v)" for pth
    using assms by (simp add: plain_conforms_parse conformsInput_def)
  then show ?thesis
    by (simp add: Parser_start_def parse_node_extension consult_update parseSetExtension_def
        operandParser_def Let_def)
qed

theorem add_operand_returned_unchanged_witness:
  "conforms CreateMode (SetOf (Scalar KString no_props) no_props) (VSet [VStr ''a'', VStr ''b'']) \<and>
   Parser_start (updateConfig CreateMode) (SetOf (Scalar KString no_props) no_props)
     (Some (VOp ADD (Some (VSet [VStr ''a'', VStr ''b'']))))
     \<lparr>transform = Some False, valuePath = Some [Name ''tags''], fill = Some True\<rparr>
   = Return (Some (VOp ADD (Some (VSet [VStr ''a'', VStr ''b'']))))"
proof -
  have h: "conforms CreateMode (SetOf (Scalar KString no_props) no_props) (VSet [VStr ''a'', VStr ''b''])"
    by (simp add: accepted_def modeValidator_def no_props_def)
  show ?thesis
    using h add_operand_returned_unchanged [OF h, of "Some [Name ''tags'']" "Some True"] by simp
qed

text \<open>
  C2, as stated, fails: on a Set of numbers the operand \<open>7\<close> is valid against the
  element schema, and the parse of \<^verbatim>\<open>{ADD: 7}\<close> raises a type mismatch at \<^verbatim>\<open>$ADD\<close>
  instead of returning \<^verbatim>\<open>{ADD: 7}\<close>.
\<close>

theorem add_of_an_element_is_rejected:
  "conforms CreateMode (Scalar KNumber no_props) (VNum 7) \<and>
   Parser_start (updateConfig CreateMode) (SetOf (Scalar KNumber no_props) no_props)
     (Some (VOp ADD (Some (VNum 7)))) \<lparr>transform = Some False, valuePath = None, fill = None\<rparr>
   = Throw \<lparr>path = [Name ''$ADD''], reason = TypeMismatch\<rparr>"
  by (simp add: Parser_start_def parse_node_extension consult_update parseSetExtension_def
      operandParser_def Let_def parse_node.simps parse_kind.simps accepted_def modeValidator_def
      no_props_def)

text \<open>
  C3, as amended: for every Set schema and every update-mode input \<^verbatim>\<open>{DELETE: v}\<close> where
  \<open>v\<close> is defined and fails the type check of the Set schema itself (it is not a set),
  the parse raises a type mismatch whose path is the base path extended by the segment
  \<^verbatim>\<open>'$DELETE'\<close>.
\<close>

theorem delete_operand_not_a_set:
  assumes "\<not> isSetValue v"
  shows "Parser_start (updateConfig m) (SetOf elem p) (Some (VOp DELETE (Some v)))
           \<lparr>transform = tr, valuePath = vp, fill = fl\<rparr>
         = Throw \<lparr>path = (case vp of None \<Rightarrow> [] | Some b \<Rightarrow> b) @ [Name ''$DELETE''],
                  reason = TypeMismatch\<rparr>"
  using assms
  by (simp add: Parser_start_def parse_node_extension consult_update parseSetExtension_def
      operandParser_def Let_def parse_node_defined parse_kind_not_a_set)

theorem delete_operand_not_a_set_witness:
  "\<not> isSetValue (VStr ''a'') \<and>
   Parser_start (updateConfig CreateMode) (SetOf (Scalar KString no_props) no_props)
     (Some (VOp DELETE (Some (VStr ''a''))))
     \<lparr>transform = Some True, valuePath = Some [Name ''tags''], fill = Some True\<rparr>
   = Throw \<lparr>path = [Name ''tags'', Name ''$DELETE''], reason = TypeMismatch\<rparr>"
proof -
  have h: "\<not> isSetValue (VStr ''a'')" by (simp add: isSetValue_def)
  show ?thesis
    using h delete_operand_not_a_set [OF h, of CreateMode "Scalar KString no_props" no_props
        "Some True" "Some [Name ''tags'']" "Some True"]
    by simp
qed

text \<open>
  C3, as stated, fails: on a Set of strings the operand \<^verbatim>\<open>{'a'}\<close>, a set, fails the type
  check of the element schema (it is not a string), and the parse of \<^verbatim>\<open>{DELETE: {'a'}}\<close>
  raises nothing: both resumes give \<^verbatim>\<open>{DELETE: {'a'}}\<close>.
\<close>

theorem delete_of_a_set_of_strings_is_accepted:
  "firstValue (Parser_start (plainConfig CreateMode) (Scalar KString no_props)
      (Some (VSet [VStr ''a'']))
      (operandOptions \<lparr>transform = Some True, valuePath = Some [Name ''tags'']\<rparr> ''$DELETE''))
     = Inl \<lparr>path = [Name ''tags'', Name ''$DELETE''], reason = TypeMismatch\<rparr> \<and>
   Parser_start (updateConfig CreateMode) (SetOf (Scalar KString no_props) no_props)
     (Some (VOp DELETE (Some (VSet [VStr ''a'']))))
     \<lparr>transform = Some True, valuePath = Some [Name ''tags''], fill = Some True\<rparr>
     = Yield (Some (VOp DELETE (Some (VSet [VStr ''a'']))))
         (Return (Some (VOp DELETE (Some (VSet [VStr ''a''])))))"
  by (simp add: Parser_start_def consult_update parseSetExtension_def operandParser_def Let_def
      operandOptions_def firstValue_def checkValidator_def modeValidator_def no_props_def
      deliver_def step_def defined_def finishElements_def encode_def
      parse_node.simps parse_kind.simps)

text \<open>
  C8: whether an absent attribute is required depends on its required mode and on the
  write mode only. For an attribute that no link and no default of the mode fills, the
  parse of an undefined input raises \<^verbatim>\<open>RequiredAttributeMissing\<close> at the attribute's
  path exactly when the required mode is \<^verbatim>\<open>always\<close>, or \<^verbatim>\<open>atLeastOnce\<close> in create
  mode, and otherwise succeeds with the value left \<^verbatim>\<open>undefined\<close>: \<^verbatim>\<open>never\<close> is required
  in no mode, \<^verbatim>\<open>atLeastOnce\<close> in create mode only. This holds for the attribute parsed
  alone and as the attribute \<open>name\<close> of an item, whatever \<^verbatim>\<open>fill\<close> is, for a parser
  without extension in any mode and for the update-mode parser.
\<close>

theorem required_by_mode:
  assumes "modeLink (mode cfg) (props_of attr) = None"
    and "modeDefault (mode cfg) (props_of attr) = None"
    and "cfg = plainConfig m \<or> cfg = updateConfig m"
  shows
    "isRequired md p = (requiredMode p = Always \<or> (requiredMode p = AtLeastOnce \<and> md = CreateMode)) \<and>
     Parser_start cfg attr None \<lparr>transform = Some tr, valuePath = Some pth, fill = fl\<rparr>
       = (if requiredMode (props_of attr) = Always \<or>
             (requiredMode (props_of attr) = AtLeastOnce \<and> mode cfg = CreateMode)
          then Throw \<lparr>path = pth, reason = RequiredAttributeMissing\<rparr>
          else if tr then Yield None (Return None) else Return None) \<and>
     (if requiredMode (props_of attr) = Always \<or>
         (requiredMode (props_of attr) = AtLeastOnce \<and> mode cfg = CreateMode)
      then Parser_start cfg (Item [(name, attr)] no_props) (Some (VMap fmempty))
             \<lparr>transform = Some tr, valuePath = Some pth, fill = fl\<rparr>
           = Throw \<lparr>path = pth @ [Name name], reason = RequiredAttributeMissing\<rparr>
      else firstValue (Parser_start cfg (Item [(name, attr)] no_props) (Some (VMap fmempty))
             \<lparr>transform = Some tr, valuePath = Some pth, fill = fl\<rparr>)
           = Inr (Some (VMap fmempty)))"
proof -
  have f: "fillValue (mode cfg) (props_of attr) b ctx None = None" for b ctx
    using assms(1,2) by (rule fillValue_nothing)
  have c: "consult cfg attr None tr q = NotExtension None" for q
    using assms(3) by auto
  have n: "parse_node cfg attr None b tr q ctx =
             (if isRequired (mode cfg) (props_of attr)
              then Throw \<lparr>path = q, reason = RequiredAttributeMissing\<rparr>
              else deliver tr None (Return None))" for b q ctx
    by (rule parse_node_undefined [OF c f])
  have ci: "consult cfg (Item [(name, attr)] no_props) raw tr pth = NotExtension raw" for raw
    using assms(3) by (auto simp: consult_update)
  have vu: "checkValidator x no_props y q = None" for x y q
    by (simp add: checkValidator_def modeValidator_def no_props_def split: WriteMode.splits)
  have r: "isRequired (mode cfg) (props_of attr) =
             (requiredMode (props_of attr) = Always \<or>
              (requiredMode (props_of attr) = AtLeastOnce \<and> mode cfg = CreateMode))"
    by (rule isRequired_iff)
  have root: "Parser_start cfg attr None \<lparr>transform = Some tr, valuePath = Some pth, fill = fl\<rparr>
       = (if isRequired (mode cfg) (props_of attr)
          then Throw \<lparr>path = pth, reason = RequiredAttributeMissing\<rparr>
          else if tr then Yield None (Return None) else Return None)"
    by (simp add: Parser_start_def n deliver_def)
  have item: "Parser_start cfg (Item [(name, attr)] no_props) (Some (VMap fmempty))
             \<lparr>transform = Some tr, valuePath = Some pth, fill = fl\<rparr>
       = (if isRequired (mode cfg) (props_of attr)
          then Throw \<lparr>path = pth @ [Name name], reason = RequiredAttributeMissing\<rparr>
          else deliver tr (Some (VMap fmempty))
                 (finishChildren pth [(storedName name (props_of attr), Return None)]))"
    by (simp add: Parser_start_def parse_node_defined [OF ci] parse_kind.simps n step_def
        deliver_def vu)
  have item_ok: "\<not> isRequired (mode cfg) (props_of attr) \<Longrightarrow>
      firstValue (Parser_start cfg (Item [(name, attr)] no_props) (Some (VMap fmempty))
             \<lparr>transform = Some tr, valuePath = Some pth, fill = fl\<rparr>) = Inr (Some (VMap fmempty))"
    by (simp add: item firstValue_def deliver_def)
  show ?thesis
    using root item item_ok isRequired_iff [of md p] unfolding r by simp
qed

theorem required_by_mode_witness:
  "Parser_start (updateConfig CreateMode)
     (ListOf (Scalar KString no_props)
        (props (ListSchema_key \<lparr>elements = Scalar KString no_props, props = no_props\<rparr> None)))
     None \<lparr>transform = Some False, valuePath = Some [Name ''ids''], fill = Some True\<rparr>
     = Throw \<lparr>path = [Name ''ids''], reason = RequiredAttributeMissing\<rparr> \<and>
   Parser_start (plainConfig CreateMode)
     (ListOf (Scalar KString no_props)
        (props (ListSchema_optional \<lparr>elements = Scalar KString no_props, props = no_props\<rparr>)))
     None \<lparr>transform = Some False, valuePath = Some [Name ''ids''], fill = Some True\<rparr>
     = Return None \<and>
   Parser_start (updateConfig CreateMode)
     (ListOf (Scalar KString no_props)
        (props (ListSchema_required \<lparr>elements = Scalar KString no_props, props = no_props\<rparr> None)))
     None \<lparr>transform = Some False, valuePath = Some [Name ''ids''], fill = Some True\<rparr>
     = Return None \<and>
   Parser_start (plainConfig CreateMode)
     (Item [(''ids'', ListOf (Scalar KString no_props)
        (props (ListSchema_required \<lparr>elements = Scalar KString no_props, props = no_props\<rparr> None)))]
        no_props)
     (Some (VMap fmempty)) \<lparr>transform = Some False, valuePath = Some [], fill = Some True\<rparr>
     = Throw \<lparr>path = [Name ''ids''], reason = RequiredAttributeMissing\<rparr>"
proof -
  let ?self = "\<lparr>elements = Scalar KString no_props, props = no_props\<rparr>"
  let ?always = "ListOf (Scalar KString no_props) (props (ListSchema_key ?self None))"
  let ?never = "ListOf (Scalar KString no_props) (props (ListSchema_optional ?self))"
  let ?once = "ListOf (Scalar KString no_props) (props (ListSchema_required ?self None))"
  have pa: "props (ListSchema_key ?self None) = no_props\<lparr>key := Some True, required := Some Always\<rparr>"
    by (simp add: ListSchema_key_def overwrite_simps)
  have pn: "props (ListSchema_optional ?self) = no_props\<lparr>required := Some Never\<rparr>"
    by (simp add: ListSchema_optional_def ListSchema_required_def overwrite_simps)
  have po: "props (ListSchema_required ?self None) = no_props\<lparr>required := Some AtLeastOnce\<rparr>"
    by (simp add: ListSchema_required_def overwrite_simps)
  have ra: "requiredMode (props (ListSchema_key ?self None)) = Always"
    and rn: "requiredMode (props (ListSchema_optional ?self)) = Never"
    and ro: "requiredMode (props (ListSchema_required ?self None)) = AtLeastOnce"
    unfolding pa pn po by (simp_all add: requiredMode_def)
  have la: "modeLink (mode (updateConfig CreateMode)) (props_of ?always) = None"
    and da: "modeDefault (mode (updateConfig CreateMode)) (props_of ?always) = None"
    and ln: "modeLink (mode (plainConfig CreateMode)) (props_of ?never) = None"
    and dn: "modeDefault (mode (plainConfig CreateMode)) (props_of ?never) = None"
    and lu: "modeLink (mode (updateConfig CreateMode)) (props_of ?once) = None"
    and du: "modeDefault (mode (updateConfig CreateMode)) (props_of ?once) = None"
    and lc: "modeLink (mode (plainConfig CreateMode)) (props_of ?once) = None"
    and dc: "modeDefault (mode (plainConfig CreateMode)) (props_of ?once) = None"
    unfolding pa pn po by (simp_all add: modeLink_def modeDefault_def no_props_def)
  have cu: "updateConfig CreateMode = plainConfig CreateMode \<or> updateConfig CreateMode = updateConfig CreateMode"
    and cp: "plainConfig CreateMode = plainConfig CreateMode \<or> plainConfig CreateMode = updateConfig CreateMode"
    by simp_all
  show ?thesis
    using required_by_mode [OF la da cu, of UpdateMode no_props False "[Name ''ids'']" "Some True" "''ids''"]
      required_by_mode [OF ln dn cp, of UpdateMode no_props False "[Name ''ids'']" "Some True" "''ids''"]
      required_by_mode [OF lu du cu, of UpdateMode no_props False "[Name ''ids'']" "Some True" "''ids''"]
      required_by_mode [OF lc dc cp, of UpdateMode no_props False "[]" "Some True" "''ids''"]
    by (simp add: ra rn ro)
qed

end
